theory Spec2Isabelle
  imports Main
begin

section \<open>The entity/component/event core of flax (src/flax/things/arch.py)\<close>

subsection \<open>Names of the module's objects\<close>

text \<open>
  Python compares interfaces, zope attributes, component classes and event classes by
  identity. Each is a datatype of names, with one more constructor for objects that are
  defined outside arch.py.
\<close>

datatype layer = architecture | item | creature

datatype iface =
  IComponent | IPhysics | IContainer | ICombatant | IActor | IPortable | IUsable
  | IEquipment | OtherIface string

text \<open>\<open>Attr I n\<close> is the zope attribute \<open>I[n]\<close>.\<close>

datatype attr = Attr iface string

datatype component =
  Component | Solid | Container | Empty | Combatant | GenericAI | PlayerIntelligence
  | Portable | UsablePotion | Equipment | OtherComponent string

text \<open>
  The classes of flax.event that arch.py imports, the root class \<open>Event\<close>, Python's
  \<open>object\<close>, and any other event class.
\<close>

datatype event_class =
  Walk | PickUp | MeleeAttack | Damage | Die | Equip | Event | PyObject
  | OtherEvent string

type_synonym thing_id = nat

type_synonym position = "int \<times> int"

text \<open>
  The values stored in \<open>component_data\<close>: the integers of \<open>health\<close> and
  \<open>strength\<close>, and the list of entities of \<open>inventory\<close>.
\<close>

datatype val = IntV int | ListV "thing_id list"

datatype error =
  TypeError_two_components iface component component
  | TypeError_operands
  | KeyError_interface iface
  | KeyError_attr attr
  | AttributeError
  | AssertionError

subsection \<open>Python's operators on the slot values\<close>

text \<open>\<open>value + n\<close>, \<open>value - n\<close> and \<open>value <= n\<close> for an integer \<open>n\<close>: a list
  operand raises TypeError.\<close>

fun py_add :: "val \<Rightarrow> int \<Rightarrow> error + val" where
  "py_add (IntV a) n = Inr (IntV (a + n))"
| "py_add (ListV xs) n = Inl TypeError_operands"

fun py_sub :: "val \<Rightarrow> int \<Rightarrow> error + val" where
  "py_sub (IntV a) n = Inr (IntV (a - n))"
| "py_sub (ListV xs) n = Inl TypeError_operands"

fun py_le :: "val \<Rightarrow> int \<Rightarrow> error + bool" where
  "py_le (IntV a) n = Inr (a \<le> n)"
| "py_le (ListV xs) n = Inl TypeError_operands"

subsection \<open>Modifier\<close>

record modifier =
  stat :: attr
  add :: int

definition modify :: "modifier \<Rightarrow> attr \<Rightarrow> val \<Rightarrow> error + val" where
  "modify m a v = (if a \<noteq> stat m then Inr v else py_add v (add m))"

subsection \<open>ThingType and Thing\<close>

text \<open>
  \<open>components\<close> is the dict of \<open>ThingType.__init__\<close> in insertion order, which is the
  order \<open>Thing.handle_event\<close> iterates it in. A component class is referred to by name.
  \<open>tmp_rendering\<close> is a glyph, given by its code point, and a colour name.
  \<open>type_modifiers\<close> is the field \<open>modifiers\<close> of ThingType.
\<close>

record thing_type =
  layer :: layer
  name :: string
  tmp_rendering :: "nat \<times> string"
  type_modifiers :: "modifier list"
  components :: "(iface \<times> component) list"

record thing =
  type :: thing_type
  modifiers :: "modifier list"
  component_data :: "attr \<rightharpoonup> val"

definition Thing_init :: "thing_type \<Rightarrow> thing" where
  "Thing_init ty = \<lparr>type = ty, modifiers = [], component_data = Map.empty\<rparr>"

text \<open>The loop body of \<open>ThingType.__init__\<close> over the interfaces of one component.\<close>

fun add_interfaces ::
  "component \<Rightarrow> iface list \<Rightarrow> (iface \<times> component) list \<Rightarrow> error + (iface \<times> component) list"
where
  "add_interfaces c [] m = Inr m"
| "add_interfaces c (i # rest) m =
     (if i = IComponent then add_interfaces c rest m
      else case map_of m i of
             Some c' \<Rightarrow> Inl (TypeError_two_components i c' c)
           | None \<Rightarrow> add_interfaces c rest (m @ [(i, c)]))"

fun add_components ::
  "(component \<Rightarrow> iface list) \<Rightarrow> component list \<Rightarrow> (iface \<times> component) list
     \<Rightarrow> error + (iface \<times> component) list"
where
  "add_components implementedBy [] m = Inr m"
| "add_components implementedBy (c # cs) m =
     (case add_interfaces c (implementedBy c) m of
        Inl e \<Rightarrow> Inl e
      | Inr m' \<Rightarrow> add_components implementedBy cs m')"

text \<open>
  \<open>zi.implementedBy\<close> belongs to zope.interface; it is a parameter here.
\<close>

definition ThingType_init ::
  "(component \<Rightarrow> iface list) \<Rightarrow> component list \<Rightarrow> layer \<Rightarrow> string \<Rightarrow> nat \<times> string
     \<Rightarrow> modifier list \<Rightarrow> error + thing_type"
where
  "ThingType_init implementedBy cs l n r ms =
     (case add_components implementedBy cs [] of
        Inl e \<Rightarrow> Inl e
      | Inr m \<Rightarrow> Inr \<lparr>layer = l, name = n, tmp_rendering = r, type_modifiers = ms,
                     components = m\<rparr>)"

subsection \<open>Events and the world\<close>

text \<open>
  flax.event is not part of arch.py. An event is the record of what the handlers read
  from it: \<open>mro\<close> is \<open>type(event).__mro__\<close>, \<open>target_position\<close> is
  \<open>event.target.position\<close>.
\<close>

record event =
  mro :: "event_class list"
  actor :: thing_id
  target_position :: position
  amount :: int
  cancelled :: bool

text \<open>Modelled from the spec: flax.event's \<open>cancel\<close> is missing; it sets the event's
  \<open>cancelled\<close> flag to true.\<close>

definition cancel :: "event \<Rightarrow> event" where
  "cancel ev = ev\<lparr>cancelled := True\<rparr>"

text \<open>The events that arch.py constructs, as the constructor calls it writes.\<close>

datatype new_event = New_Die thing_id | New_Damage thing_id int

text \<open>
  The world and its map are collaborators outside arch.py: the calls made to them are
  recorded in order, with what \<open>print\<close> writes. \<open>Call_initializer\<close> records an
  invocation of a slot's default-provider.
\<close>

datatype call =
  Queue_immediate_event new_event
  | Map_remove thing_id
  | Map_move thing_id position
  | Print string
  | Call_initializer attr thing_id

record world =
  things :: "thing_id \<Rightarrow> thing"
  calls :: "call list"

definition do_call :: "call \<Rightarrow> world \<Rightarrow> world" where
  "do_call c w = w\<lparr>calls := calls w @ [c]\<rparr>"

text \<open>A component instance: \<open>Component.__init__\<close> stores the interface and the entity.\<close>

record bound =
  iface :: iface
  entity :: thing_id

definition Component_init :: "iface \<Rightarrow> thing_id \<Rightarrow> bound" where
  "Component_init i e = \<lparr>iface = i, entity = e\<rparr>"

definition add_modifiers :: "thing_id \<Rightarrow> modifier list \<Rightarrow> world \<Rightarrow> world" where
  "add_modifiers e ms w =
     w\<lparr>things := (things w)(e := (things w e)\<lparr>modifiers := modifiers (things w e) @ ms\<rparr>)\<rparr>"

subsection \<open>ComponentAttribute\<close>

record component_attribute =
  zope_attribute :: attr
  initializer :: "bound \<Rightarrow> val"

fun apply_modifiers :: "modifier list \<Rightarrow> attr \<Rightarrow> val \<Rightarrow> error + val" where
  "apply_modifiers [] a v = Inr v"
| "apply_modifiers (m # ms) a v =
     (case modify m a v of Inl e \<Rightarrow> Inl e | Inr v' \<Rightarrow> apply_modifiers ms a v')"

definition set_data :: "thing_id \<Rightarrow> attr \<Rightarrow> val \<Rightarrow> world \<Rightarrow> world" where
  "set_data e a v w =
     w\<lparr>things := (things w)(e := (things w e)
          \<lparr>component_data := (component_data (things w e))(a \<mapsto> v)\<rparr>)\<rparr>"

text \<open>
  \<open>ComponentAttribute.__get__\<close> on a component instance (on the class itself, where
  \<open>self is None\<close>, it returns the descriptor). \<open>data[attr]\<close> raises KeyError for a
  missing key, which cannot happen after the line before it. The modifiers are those of
  \<open>self.entity.modifiers\<close>.
\<close>

definition ComponentAttribute_get ::
  "component_attribute \<Rightarrow> bound \<Rightarrow> world \<Rightarrow> error + (val \<times> world)"
where
  "ComponentAttribute_get desc self w =
     (let a = zope_attribute desc;
          e = entity self;
          w' = (case component_data (things w e) a of
                  None \<Rightarrow> set_data e a (initializer desc self) (do_call (Call_initializer a e) w)
                | Some v \<Rightarrow> w)
      in case component_data (things w' e) a of
           None \<Rightarrow> Inl (KeyError_attr a)
         | Some v \<Rightarrow>
             (case apply_modifiers (modifiers (things w' e)) a v of
                Inl err \<Rightarrow> Inl err
              | Inr v' \<Rightarrow> Inr (v', w')))"

definition ComponentAttribute_set ::
  "component_attribute \<Rightarrow> bound \<Rightarrow> val \<Rightarrow> world \<Rightarrow> world"
where
  "ComponentAttribute_set desc self v w = set_data (entity self) (zope_attribute desc) v w"

subsection \<open>Handler and the handler decorator\<close>

record 'f handler_obj =
  func :: 'f
  event_classes :: "event_class list"

text \<open>\<open>Handler.wrap\<close>: the argument is a plain function (\<open>Inl\<close>) or a Handler
  (\<open>Inr\<close>).\<close>

fun Handler_wrap :: "'f + 'f handler_obj \<Rightarrow> event_class \<Rightarrow> 'f handler_obj" where
  "Handler_wrap (Inr h) ec = h\<lparr>event_classes := event_classes h @ [ec]\<rparr>"
| "Handler_wrap (Inl f) ec = \<lparr>func = f, event_classes = [ec]\<rparr>"

definition handler :: "event_class \<Rightarrow> 'f + 'f handler_obj \<Rightarrow> 'f handler_obj" where
  "handler ec f = Handler_wrap f ec"

subsection \<open>ComponentMeta\<close>

text \<open>
  A value of a class body is a Handler or something else. \<open>attrs\<close> is the body's dict in
  declaration order (the order of a class namespace in Python 3.6 and later). \<open>event_handlers\<close> is a \<open>defaultdict(list)\<close>: a missing class has
  the empty list.
\<close>

datatype 'f class_value = HandlerV "'f handler_obj" | OtherV

record 'f component_class =
  cls_name :: string
  cls_bases :: "component list"
  cls_attrs :: "(string \<times> 'f class_value) list"
  event_handlers :: "event_class \<Rightarrow> 'f list"

definition dict_del :: "'k \<Rightarrow> ('k \<times> 'v) list \<Rightarrow> ('k \<times> 'v) list" where
  "dict_del k d = filter (\<lambda>kv. fst kv \<noteq> k) d"

fun append_handler ::
  "'f \<Rightarrow> event_class list \<Rightarrow> (event_class \<Rightarrow> 'f list) \<Rightarrow> (event_class \<Rightarrow> 'f list)"
where
  "append_handler f [] t = t"
| "append_handler f (c # cs) t = append_handler f cs (t(c := t c @ [f]))"

fun collect_handlers ::
  "(string \<times> 'f class_value) list
     \<Rightarrow> (event_class \<Rightarrow> 'f list) \<times> (string \<times> 'f class_value) list
     \<Rightarrow> (event_class \<Rightarrow> 'f list) \<times> (string \<times> 'f class_value) list"
where
  "collect_handlers [] s = s"
| "collect_handlers ((key, HandlerV h) # rest) (t, attrs) =
     collect_handlers rest (append_handler (func h) (event_classes h) t, dict_del key attrs)"
| "collect_handlers ((key, OtherV) # rest) (t, attrs) = collect_handlers rest (t, attrs)"

text \<open>
  \<open>ComponentMeta.__new__\<close>. The table is stored under the key \<open>event_handlers\<close> of the
  new class itself, so \<open>self.event_handlers\<close> on an instance of the class finds this
  table, whatever the bases are.
\<close>

definition ComponentMeta_new ::
  "string \<Rightarrow> component list \<Rightarrow> (string \<times> 'f class_value) list \<Rightarrow> 'f component_class"
where
  "ComponentMeta_new n bases attrs =
     (case collect_handlers attrs (\<lambda>c. [], attrs) of
        (t, attrs') \<Rightarrow>
          \<lparr>cls_name = n, cls_bases = bases,
           cls_attrs = dict_del ''event_handlers'' attrs', event_handlers = t\<rparr>)"

subsection \<open>Dispatch\<close>

type_synonym handler_fn = "bound \<Rightarrow> event \<Rightarrow> world \<Rightarrow> error + (event \<times> world)"

text \<open>The inner loop of \<open>Component.handle_event\<close>; an exception of a handler leaves
  the loops.\<close>

fun call_handlers :: "handler_fn list \<Rightarrow> handler_fn" where
  "call_handlers [] self ev w = Inr (ev, w)"
| "call_handlers (h # hs) self ev w =
     (case h self ev w of
        Inl x \<Rightarrow> Inl x
      | Inr (ev', w') \<Rightarrow> call_handlers hs self ev' w')"

fun handle_classes ::
  "(event_class \<Rightarrow> handler_fn list) \<Rightarrow> event_class list \<Rightarrow> handler_fn"
where
  "handle_classes t [] self ev w = Inr (ev, w)"
| "handle_classes t (c # cs) self ev w =
     (case call_handlers (t c) self ev w of
        Inl x \<Rightarrow> Inl x
      | Inr (ev', w') \<Rightarrow> handle_classes t cs self ev' w')"

definition Component_handle_event :: "handler_fn component_class \<Rightarrow> handler_fn" where
  "Component_handle_event cls self ev w =
     handle_classes (event_handlers cls) (mro ev) self ev w"

text \<open>The loop of \<open>Thing.handle_event\<close> over the items of \<open>type.components\<close>;
  \<open>env\<close> gives the class that a component name stands for.\<close>

fun handle_components ::
  "(component \<Rightarrow> handler_fn component_class) \<Rightarrow> (iface \<times> component) list
     \<Rightarrow> thing_id \<Rightarrow> event \<Rightarrow> world \<Rightarrow> error + (event \<times> world)"
where
  "handle_components env [] e ev w = Inr (ev, w)"
| "handle_components env ((i, c) # rest) e ev w =
     (case Component_handle_event (env c) (Component_init i e) ev w of
        Inl x \<Rightarrow> Inl x
      | Inr (ev', w') \<Rightarrow> handle_components env rest e ev' w')"

definition Thing_handle_event ::
  "(component \<Rightarrow> handler_fn component_class) \<Rightarrow> thing_id \<Rightarrow> event \<Rightarrow> world
     \<Rightarrow> error + (event \<times> world)"
where
  "Thing_handle_event env e ev w =
     handle_components env (components (type (things w e))) e ev w"

subsection \<open>The components of arch.py\<close>

definition inventory :: component_attribute where
  "inventory = \<lparr>zope_attribute = Attr IContainer ''inventory'', initializer = (\<lambda>self. ListV [])\<rparr>"

definition health :: component_attribute where
  "health = \<lparr>zope_attribute = Attr ICombatant ''health'', initializer = (\<lambda>self. IntV 10)\<rparr>"

definition strength :: component_attribute where
  "strength = \<lparr>zope_attribute = Attr ICombatant ''strength'', initializer = (\<lambda>self. IntV 3)\<rparr>"

definition Solid_blocks :: "bound \<Rightarrow> thing_id \<Rightarrow> bool" where
  "Solid_blocks self a = True"

definition Empty_blocks :: "bound \<Rightarrow> thing_id \<Rightarrow> bool" where
  "Empty_blocks self a = False"

definition Solid_handle_walk :: handler_fn where
  "Solid_handle_walk self ev w = Inr (cancel ev, w)"

definition Empty_handle_walk :: handler_fn where
  "Empty_handle_walk self ev w = Inr (ev, do_call (Map_move (actor ev) (target_position ev)) w)"

text \<open>
  \<open>self.health -= event.amount\<close> reads the slot, subtracts and writes the slot; the
  test \<open>self.health <= 0\<close> reads it again.
\<close>

definition Combatant_handle_damage :: handler_fn where
  "Combatant_handle_damage self ev w =
     (case ComponentAttribute_get health self w of
        Inl x \<Rightarrow> Inl x
      | Inr (h, w1) \<Rightarrow>
          (case py_sub h (amount ev) of
             Inl x \<Rightarrow> Inl x
           | Inr h' \<Rightarrow>
               (case ComponentAttribute_get health self (ComponentAttribute_set health self h' w1) of
                  Inl x \<Rightarrow> Inl x
                | Inr (h2, w2) \<Rightarrow>
                    (case py_le h2 0 of
                       Inl x \<Rightarrow> Inl x
                     | Inr dead \<Rightarrow>
                         Inr (ev, if dead
                                  then do_call (Queue_immediate_event (New_Die (entity self))) w2
                                  else w2)))))"

definition Combatant_handle_attack :: handler_fn where
  "Combatant_handle_attack self ev w =
     Inr (ev,
       do_call (Queue_immediate_event (New_Damage (entity self) 5))
         (do_call (Print (name (type (things w (actor ev))) @ '' hits ''
                          @ name (type (things w (entity self))))) w))"

definition Combatant_handle_death :: handler_fn where
  "Combatant_handle_death self ev w =
     Inr (ev,
       do_call (Map_remove (entity self))
         (do_call (Print (name (type (things w (entity self))) @ '' has died'')) w))"

text \<open>\<open>Thing.__conform__\<close>: the component instance for an interface, KeyError when the
  type has none.\<close>

definition Thing_conform :: "thing_id \<Rightarrow> iface \<Rightarrow> world \<Rightarrow> error + (component \<times> bound)" where
  "Thing_conform e i w =
     (case map_of (components (type (things w e))) i of
        None \<Rightarrow> Inl (KeyError_interface i)
      | Some c \<Rightarrow> Inr (c, Component_init i e))"

text \<open>
  In \<open>IContainer(event.actor).inventory.append(self.entity)\<close> only the class Container
  has the descriptor \<open>inventory\<close>, and the list that a successful read returns is the
  stored one (a modifier for the slot would have raised), so \<open>append\<close> changes the
  stored list.
\<close>

definition Portable_handle_picked_up :: handler_fn where
  "Portable_handle_picked_up self ev w =
     (let w1 = do_call (Print (''ooh picking up '' @ name (type (things w (entity self))))) w
      in if layer (type (things w1 (entity self))) \<noteq> item then Inl AssertionError
         else
           let w2 = do_call (Map_remove (entity self)) w1
           in case Thing_conform (actor ev) IContainer w2 of
                Inl x \<Rightarrow> Inl x
              | Inr (c, b) \<Rightarrow>
                  if c \<noteq> Container then Inl AttributeError
                  else
                    (case ComponentAttribute_get inventory b w2 of
                       Inl x \<Rightarrow> Inl x
                     | Inr (IntV n, w3) \<Rightarrow> Inl AttributeError
                     | Inr (ListV xs, w3) \<Rightarrow>
                         Inr (ev, set_data (actor ev) (zope_attribute inventory)
                                    (ListV (xs @ [entity self])) w3)))"

definition Equipment_handle_equip :: handler_fn where
  "Equipment_handle_equip self ev w =
     Inr (ev,
       add_modifiers (actor ev) (type_modifiers (type (things w (entity self))))
         (do_call (Print ''you put on the armor'') w))"

text \<open>The class bodies, in declaration order; the methods that are not handlers and
  the attribute descriptors are \<open>OtherV\<close>.\<close>

definition Component_class :: "handler_fn component_class" where
  "Component_class =
     ComponentMeta_new ''Component'' [] [(''__init__'', OtherV), (''handle_event'', OtherV)]"

definition Solid_class :: "handler_fn component_class" where
  "Solid_class =
     ComponentMeta_new ''Solid'' [Component]
       [(''blocks'', OtherV),
        (''handle_walk'', HandlerV (handler Walk (Inl Solid_handle_walk)))]"

definition Container_class :: "handler_fn component_class" where
  "Container_class = ComponentMeta_new ''Container'' [Component] [(''inventory'', OtherV)]"

definition Empty_class :: "handler_fn component_class" where
  "Empty_class =
     ComponentMeta_new ''Empty'' [Component]
       [(''blocks'', OtherV),
        (''handle_walk'', HandlerV (handler Walk (Inl Empty_handle_walk)))]"

definition Combatant_class :: "handler_fn component_class" where
  "Combatant_class =
     ComponentMeta_new ''Combatant'' [Component]
       [(''__init__'', OtherV), (''health'', OtherV), (''strength'', OtherV),
        (''handle_damage'', HandlerV (handler Damage (Inl Combatant_handle_damage))),
        (''handle_attack'', HandlerV (handler MeleeAttack (Inl Combatant_handle_attack))),
        (''handle_death'', HandlerV (handler Die (Inl Combatant_handle_death)))]"

definition GenericAI_class :: "handler_fn component_class" where
  "GenericAI_class = ComponentMeta_new ''GenericAI'' [Component] [(''act'', OtherV)]"

definition PlayerIntelligence_class :: "handler_fn component_class" where
  "PlayerIntelligence_class =
     ComponentMeta_new ''PlayerIntelligence'' [Component] [(''act'', OtherV)]"

definition Portable_class :: "handler_fn component_class" where
  "Portable_class =
     ComponentMeta_new ''Portable'' [Component]
       [(''handle_picked_up'', HandlerV (handler PickUp (Inl Portable_handle_picked_up)))]"

definition UsablePotion_class :: "handler_fn component_class" where
  "UsablePotion_class = ComponentMeta_new ''UsablePotion'' [Component] [(''use'', OtherV)]"

definition Equipment_class :: "handler_fn component_class" where
  "Equipment_class =
     ComponentMeta_new ''Equipment'' [Component]
       [(''handle_equip'', HandlerV (handler Equip (Inl Equipment_handle_equip)))]"

text \<open>The classes of arch.py by name; a class defined elsewhere is not known here and
  stands for a subclass of Component with an empty body.\<close>

fun flax_classes :: "component \<Rightarrow> handler_fn component_class" where
  "flax_classes Component = Component_class"
| "flax_classes Solid = Solid_class"
| "flax_classes Container = Container_class"
| "flax_classes Empty = Empty_class"
| "flax_classes Combatant = Combatant_class"
| "flax_classes GenericAI = GenericAI_class"
| "flax_classes PlayerIntelligence = PlayerIntelligence_class"
| "flax_classes Portable = Portable_class"
| "flax_classes UsablePotion = UsablePotion_class"
| "flax_classes Equipment = Equipment_class"
| "flax_classes (OtherComponent n) = ComponentMeta_new n [Component] []"

text \<open>What \<open>zi.implementedBy\<close> yields for each class: the interface of its
  \<open>zi.implementer\<close> decorator, then the one declared for the base class Component.\<close>

fun flax_implementedBy :: "component \<Rightarrow> iface list" where
  "flax_implementedBy Component = [IComponent]"
| "flax_implementedBy Solid = [IPhysics, IComponent]"
| "flax_implementedBy Container = [IContainer, IComponent]"
| "flax_implementedBy Empty = [IPhysics, IComponent]"
| "flax_implementedBy Combatant = [ICombatant, IComponent]"
| "flax_implementedBy GenericAI = [IActor, IComponent]"
| "flax_implementedBy PlayerIntelligence = [IActor, IComponent]"
| "flax_implementedBy Portable = [IPortable, IComponent]"
| "flax_implementedBy UsablePotion = [IUsable, IComponent]"
| "flax_implementedBy Equipment = [IEquipment, IComponent]"
| "flax_implementedBy (OtherComponent n) = [IComponent]"

subsection \<open>The thing types of arch.py\<close>

definition Architecture :: "component list \<Rightarrow> string \<Rightarrow> nat \<times> string \<Rightarrow> error + thing_type" where
  "Architecture cs n r = ThingType_init flax_implementedBy cs architecture n r []"

definition Creature :: "component list \<Rightarrow> string \<Rightarrow> nat \<times> string \<Rightarrow> error + thing_type" where
  "Creature cs n r =
     ThingType_init flax_implementedBy ([Solid, Combatant, Container] @ cs) creature n r []"

definition Item ::
  "component list \<Rightarrow> string \<Rightarrow> nat \<times> string \<Rightarrow> modifier list \<Rightarrow> error + thing_type"
where
  "Item cs n r ms = ThingType_init flax_implementedBy ([Portable] @ cs) item n r ms"

definition Wall :: "error + thing_type" where
  "Wall = Architecture [Solid] ''wall'' (0x2592, ''default'')"

definition Floor :: "error + thing_type" where
  "Floor = Architecture [Empty] ''dirt'' (0xB7, ''floor'')"

definition Player :: "error + thing_type" where
  "Player = Creature [PlayerIntelligence] ''you'' (0x263B, ''player'')"

definition Salamango :: "error + thing_type" where
  "Salamango = Creature [GenericAI] ''salamango'' (0x3A, ''salamango'')"

definition Potion :: "error + thing_type" where
  "Potion = Item [UsablePotion] ''potion'' (0xF0, ''default'') []"

definition Armor :: "error + thing_type" where
  "Armor =
     Item [Equipment] ''armor'' (0x5B, ''default'')
       [\<lparr>stat = Attr ICombatant ''strength'', add = 3\<rparr>]"

subsection \<open>Definitions used to state the properties\<close>

definition matching_adds :: "modifier list \<Rightarrow> attr \<Rightarrow> int" where
  "matching_adds ms a = sum_list (map add (filter (\<lambda>m. stat m = a) ms))"

definition spec_slot_read :: "thing \<Rightarrow> attr \<Rightarrow> int \<Rightarrow> val" where
  "spec_slot_read t a v = IntV (v + matching_adds (type_modifiers (type t) @ modifiers t) a)"

definition ogre :: thing_type where
  "ogre = \<lparr>layer = creature, name = ''ogre'', tmp_rendering = (0x4F, ''default''),
            type_modifiers = [\<lparr>stat = Attr ICombatant ''strength'', add = 3\<rparr>],
            components = [(ICombatant, Combatant)]\<rparr>"

definition ogre_world :: world where
  "ogre_world = \<lparr>things = (\<lambda>e. Thing_init ogre), calls = []\<rparr>"

text \<open>The records that the constructions of Wall, Player, Salamango and Armor give.\<close>

definition wall_type :: thing_type where
  "wall_type = \<lparr>layer = architecture, name = ''wall'', tmp_rendering = (0x2592, ''default''),
                 type_modifiers = [], components = [(IPhysics, Solid)]\<rparr>"

definition player_type :: thing_type where
  "player_type = \<lparr>layer = creature, name = ''you'', tmp_rendering = (0x263B, ''player''),
                   type_modifiers = [],
                   components = [(IPhysics, Solid), (ICombatant, Combatant),
                                 (IContainer, Container), (IActor, PlayerIntelligence)]\<rparr>"

definition salamango_type :: thing_type where
  "salamango_type = \<lparr>layer = creature, name = ''salamango'',
                      tmp_rendering = (0x3A, ''salamango''), type_modifiers = [],
                      components = [(IPhysics, Solid), (ICombatant, Combatant),
                                    (IContainer, Container), (IActor, GenericAI)]\<rparr>"

definition armor_type :: thing_type where
  "armor_type = \<lparr>layer = item, name = ''armor'', tmp_rendering = (0x5B, ''default''),
                  type_modifiers = [\<lparr>stat = Attr ICombatant ''strength'', add = 3\<rparr>],
                  components = [(IPortable, Portable), (IEquipment, Equipment)]\<rparr>"

text \<open>
  The handlers that a class body declares for an event class: one entry for each
  occurrence of the class among a Handler's \<open>event_classes\<close>, in declaration order.
\<close>

fun declared_for :: "event_class \<Rightarrow> 'f class_value \<Rightarrow> 'f list" where
  "declared_for c (HandlerV h) = map (\<lambda>k. func h) (filter (\<lambda>k. k = c) (event_classes h))"
| "declared_for c OtherV = []"

definition declared_handlers :: "(string \<times> 'f class_value) list \<Rightarrow> event_class \<Rightarrow> 'f list" where
  "declared_handlers attrs c = concat (map (\<lambda>kv. declared_for c (snd kv)) attrs)"

text \<open>The capabilities of a component: what \<open>implementedBy\<close> yields, without the
  marker IComponent.\<close>

definition capabilities :: "(component \<Rightarrow> iface list) \<Rightarrow> component \<Rightarrow> iface list" where
  "capabilities implementedBy c = filter (\<lambda>i. i \<noteq> IComponent) (implementedBy c)"

text \<open>Two of the supplied components, at different places of the list, implement the
  same capability.\<close>

definition share_capability :: "(component \<Rightarrow> iface list) \<Rightarrow> component list \<Rightarrow> bool" where
  "share_capability implementedBy cs \<longleftrightarrow>
     (\<exists>j k. j < k \<and> k < length cs \<and>
        set (capabilities implementedBy (cs ! j)) \<inter> set (capabilities implementedBy (cs ! k)) \<noteq> {})"

text \<open>
  Modelled from the spec: the class hierarchy of flax.event is missing; each event class
  that arch.py imports derives from the root event class. These are the events and
  worlds that the properties below are evaluated on.
\<close>

definition walk_event :: "thing_id \<Rightarrow> position \<Rightarrow> event" where
  "walk_event a p =
     \<lparr>mro = [Walk, Event, PyObject], actor = a, target_position = p, amount = 0,
      cancelled = False\<rparr>"

definition damage_event :: "int \<Rightarrow> event" where
  "damage_event n =
     \<lparr>mro = [Damage, Event, PyObject], actor = 0, target_position = (0, 0), amount = n,
      cancelled = False\<rparr>"

definition equip_event :: "thing_id \<Rightarrow> event" where
  "equip_event a =
     \<lparr>mro = [Equip, Event, PyObject], actor = a, target_position = (0, 0), amount = 0,
      cancelled = False\<rparr>"

text \<open>A world of freshly created salamangos.\<close>

definition salamango_world :: world where
  "salamango_world = \<lparr>things = (\<lambda>e. Thing_init salamango_type), calls = []\<rparr>"

text \<open>A world where entity 7 is a fresh Armor and every other entity a fresh Player.\<close>

definition equip_world :: world where
  "equip_world =
     \<lparr>things = (\<lambda>e. if e = 7 then Thing_init armor_type else Thing_init player_type),
      calls = []\<rparr>"

text \<open>A world of fresh walls.\<close>

definition wall_world :: world where
  "wall_world = \<lparr>things = (\<lambda>e. Thing_init wall_type), calls = []\<rparr>"

text \<open>A salamango with stored health 10 that carries a modifier of +2 on health.\<close>

definition blessed_world :: world where
  "blessed_world =
     add_modifiers 0 [\<lparr>stat = Attr ICombatant ''health'', add = 2\<rparr>]
       (set_data 0 (Attr ICombatant ''health'') (IntV 10) salamango_world)"

text \<open>
  Two handlers that only write their name, a class body that declares one for the event
  class Attack and one for its subclass MeleeAttack, and a MeleeAttack event.
\<close>

definition log_general :: handler_fn where
  "log_general self ev w = Inr (ev, do_call (Print ''general'') w)"

definition log_special :: handler_fn where
  "log_special self ev w = Inr (ev, do_call (Print ''special'') w)"

definition logging_body :: "(string \<times> handler_fn class_value) list" where
  "logging_body =
     [(''on_attack'', HandlerV (handler (OtherEvent ''Attack'') (Inl log_general))),
      (''helper'', OtherV),
      (''on_melee'', HandlerV (handler MeleeAttack (Inl log_special)))]"

definition melee_event :: event where
  "melee_event =
     \<lparr>mro = [MeleeAttack, OtherEvent ''Attack'', Event, PyObject], actor = 0,
      target_position = (0, 0), amount = 0, cancelled = False\<rparr>"

text \<open>
  What "the handlers are invoked in order" says, stated without the loops of the code. An
  action is a call with its arguments fixed but for the event and the world.
  \<open>then_do f g\<close> performs \<open>f\<close> and then \<open>g\<close> on the event and the world that \<open>f\<close> left;
  an exception of \<open>f\<close> is the result and \<open>g\<close> is not performed. \<open>in_order\<close> performs a
  list of actions one after the other, each of them.
\<close>

type_synonym action = "event \<Rightarrow> world \<Rightarrow> error + (event \<times> world)"

definition then_do :: "action \<Rightarrow> action \<Rightarrow> action" where
  "then_do f g ev w = (case f ev w of Inl x \<Rightarrow> Inl x | Inr r \<Rightarrow> g (fst r) (snd r))"

definition in_order :: "action list \<Rightarrow> action" where
  "in_order fs = foldr then_do fs (\<lambda>ev w. Inr (ev, w))"

text \<open>
  What one component of an entity's type owes an event: the handlers that its class has
  for the classes of the event's hierarchy, most specific class first, each called on
  the component instance for the entity.
\<close>

definition component_action ::
  "(component \<Rightarrow> handler_fn component_class) \<Rightarrow> thing_id \<Rightarrow> iface \<times> component \<Rightarrow> action"
where
  "component_action env e ic ev w =
     in_order (map (\<lambda>h. h (Component_init (fst ic) e))
                 (concat (map (event_handlers (env (snd ic))) (mro ev)))) ev w"

text \<open>
  A component class from outside arch.py whose only handler writes a line for a Walk
  event, the classes of arch.py with it, and a thing type built from Solid and it.
\<close>

definition Watcher_class :: "handler_fn component_class" where
  "Watcher_class =
     ComponentMeta_new ''Watcher'' [Component]
       [(''on_walk'', HandlerV (handler Walk (Inl log_general)))]"

definition watcher_classes :: "component \<Rightarrow> handler_fn component_class" where
  "watcher_classes = flax_classes(OtherComponent ''Watcher'' := Watcher_class)"

definition watcher_implementedBy :: "component \<Rightarrow> iface list" where
  "watcher_implementedBy =
     flax_implementedBy(OtherComponent ''Watcher'' := [OtherIface ''IWatcher'', IComponent])"

definition gate_type :: thing_type where
  "gate_type = \<lparr>layer = architecture, name = ''gate'', tmp_rendering = (0x2B, ''default''),
                 type_modifiers = [],
                 components = [(IPhysics, Solid),
                               (OtherIface ''IWatcher'', OtherComponent ''Watcher'')]\<rparr>"

definition gate_world :: world where
  "gate_world = \<lparr>things = (\<lambda>e. Thing_init gate_type), calls = []\<rparr>"

text \<open>A thing type whose only component is the class with the body \<open>logging_body\<close>.\<close>

definition fighter_classes :: "component \<Rightarrow> handler_fn component_class" where
  "fighter_classes =
     flax_classes(OtherComponent ''Fighter'' :=
       ComponentMeta_new ''Fighter'' [Component] logging_body)"

definition fighter_type :: thing_type where
  "fighter_type = \<lparr>layer = creature, name = ''fighter'', tmp_rendering = (0x66, ''default''),
                    type_modifiers = [],
                    components = [(ICombatant, OtherComponent ''Fighter'')]\<rparr>"

definition fighter_world :: world where
  "fighter_world = \<lparr>things = (\<lambda>e. Thing_init fighter_type), calls = []\<rparr>"

section \<open>Properties\<close>

subsection \<open>Slots and modifiers\<close>

lemma things_set_data [simp]:
  "things (set_data e a v w) = (things w)(e := (things w e)
          \<lparr>component_data := (component_data (things w e))(a \<mapsto> v)\<rparr>)"
  by (simp add: set_data_def)

lemma calls_set_data [simp]: "calls (set_data e a v w) = calls w"
  by (simp add: set_data_def)

lemma things_do_call [simp]: "things (do_call c w) = things w"
  by (simp add: do_call_def)

lemma calls_do_call [simp]: "calls (do_call c w) = calls w @ [c]"
  by (simp add: do_call_def)

lemma things_add_modifiers [simp]:
  "things (add_modifiers e ms w) =
     (things w)(e := (things w e)\<lparr>modifiers := modifiers (things w e) @ ms\<rparr>)"
  by (simp add: add_modifiers_def)

lemma calls_add_modifiers [simp]: "calls (add_modifiers e ms w) = calls w"
  by (simp add: add_modifiers_def)

lemma apply_modifiers_int:
  "apply_modifiers ms a (IntV v) = Inr (IntV (v + matching_adds ms a))"
  by (induction ms arbitrary: v) (auto simp: matching_adds_def modify_def)

lemma apply_modifiers_append:
  "apply_modifiers (ms @ ns) a v =
     (case apply_modifiers ms a v of Inl x \<Rightarrow> Inl x | Inr v' \<Rightarrow> apply_modifiers ns a v')"
  by (induction ms arbitrary: v) (simp_all split: sum.splits)

lemma apply_modifiers_snoc_int:
  "apply_modifiers ms a v = Inr (IntV s) \<Longrightarrow>
   apply_modifiers (ms @ ns) a v = Inr (IntV (s + matching_adds ns a))"
  by (simp add: apply_modifiers_append apply_modifiers_int)

lemma matching_adds_append:
  "matching_adds (ms @ ns) a = matching_adds ms a + matching_adds ns a"
  by (simp add: matching_adds_def)

lemma get_stored:
  "component_data (things w (entity self)) (zope_attribute desc) = Some v \<Longrightarrow>
   ComponentAttribute_get desc self w =
     (case apply_modifiers (modifiers (things w (entity self))) (zope_attribute desc) v of
        Inl x \<Rightarrow> Inl x | Inr v' \<Rightarrow> Inr (v', w))"
  by (simp add: ComponentAttribute_get_def Let_def split: sum.splits)

lemma get_unset:
  "component_data (things w (entity self)) (zope_attribute desc) = None \<Longrightarrow>
   ComponentAttribute_get desc self w =
     (case apply_modifiers (modifiers (things w (entity self))) (zope_attribute desc)
             (initializer desc self) of
        Inl x \<Rightarrow> Inl x
      | Inr v' \<Rightarrow> Inr (v', set_data (entity self) (zope_attribute desc) (initializer desc self)
                            (do_call (Call_initializer (zope_attribute desc) (entity self)) w)))"
  by (simp add: ComponentAttribute_get_def Let_def set_data_def do_call_def split: sum.splits)

lemma get_after_set:
  "ComponentAttribute_get desc self (ComponentAttribute_set desc self (IntV v) w) =
     Inr (IntV (v + matching_adds (modifiers (things w (entity self))) (zope_attribute desc)),
          ComponentAttribute_set desc self (IntV v) w)"
  by (simp add: get_stored ComponentAttribute_set_def apply_modifiers_int)

lemma read_after_more_modifiers:
  assumes before: "ComponentAttribute_get desc b w = Inr (IntV s, w1)"
    and same_things: "things u = things w"
  shows "\<exists>w2. ComponentAttribute_get desc b (add_modifiers (entity b) ns u) =
                 Inr (IntV (s + matching_adds ns (zope_attribute desc)), w2)"
proof (cases "component_data (things w (entity b)) (zope_attribute desc)")
  case None
  with before have "apply_modifiers (modifiers (things w (entity b))) (zope_attribute desc)
                      (initializer desc b) = Inr (IntV s)"
    by (simp add: get_unset split: sum.splits)
  from apply_modifiers_snoc_int [OF this, of ns] None same_things show ?thesis
    by (simp add: get_unset)
next
  case (Some v)
  with before have "apply_modifiers (modifiers (things w (entity b))) (zope_attribute desc) v
                      = Inr (IntV s)"
    by (simp add: get_stored split: sum.splits)
  from apply_modifiers_snoc_int [OF this, of ns] Some same_things show ?thesis
    by (simp add: get_stored)
qed

lemma ogre_built:
  "ThingType_init flax_implementedBy [Combatant] creature ''ogre'' (0x4F, ''default'')
     [\<lparr>stat = Attr ICombatant ''strength'', add = 3\<rparr>] = Inr ogre"
  by (simp add: ThingType_init_def ogre_def)

text \<open>
  C1 (amended). For every entity and attribute slot, writing an integer to the slot and
  then reading it returns the written value plus the sum of the \<open>add\<close> deltas of every
  modifier of the entity's own list \<open>entity.modifiers\<close> whose target is the slot, applied
  in list order. The modifiers of the entity's ThingType are not applied by the read:
  the result does not depend on \<open>type.modifiers\<close>.
\<close>

theorem slot_write_then_read:
  "ComponentAttribute_get desc self (ComponentAttribute_set desc self (IntV v) w) =
     Inr (IntV (v + matching_adds (modifiers (things w (entity self))) (zope_attribute desc)),
          ComponentAttribute_set desc self (IntV v) w)"
  by (rule get_after_set)

text \<open>
  C1 as first stated, with the modifiers of the ThingType applied before the entity's
  own, fails: an ogre is a Combatant whose type carries a modifier of +3 on strength.
  Writing 5 to its strength and reading it gives 5, where the statement promises 8.
\<close>

theorem slot_write_then_read_counterexample:
  "ComponentAttribute_get strength (Component_init ICombatant 0)
       (ComponentAttribute_set strength (Component_init ICombatant 0) (IntV 5) ogre_world)
     = Inr (IntV 5, ComponentAttribute_set strength (Component_init ICombatant 0) (IntV 5) ogre_world)
   \<and> spec_slot_read (things ogre_world 0) (zope_attribute strength) 5 = IntV 8"
  by (simp add: get_stored ComponentAttribute_set_def apply_modifiers_int spec_slot_read_def matching_adds_def ogre_world_def ogre_def Thing_init_def strength_def Component_init_def)

text \<open>
  C7. For a fresh entity (no modifiers, nothing stored for the slot) the first read of a
  slot succeeds, invokes the default-provider once and stores its raw result. A second
  read returns the same value and leaves the world as it is, so the default-provider is
  not invoked again; after modifiers have been added, a read applies them to the same
  stored base value, again without invoking the default-provider.
\<close>

theorem first_read_default_once:
  assumes unset: "component_data (things w (entity self)) (zope_attribute desc) = None"
    and fresh: "modifiers (things w (entity self)) = []"
  shows "\<exists>w1. ComponentAttribute_get desc self w = Inr (initializer desc self, w1)
           \<and> calls w1 = calls w @ [Call_initializer (zope_attribute desc) (entity self)]
           \<and> component_data (things w1 (entity self)) (zope_attribute desc)
                 = Some (initializer desc self)
           \<and> ComponentAttribute_get desc self w1 = Inr (initializer desc self, w1)
           \<and> (\<forall>ms. ComponentAttribute_get desc self (add_modifiers (entity self) ms w1) =
                  (case apply_modifiers ms (zope_attribute desc) (initializer desc self) of
                     Inl x \<Rightarrow> Inl x
                   | Inr v \<Rightarrow> Inr (v, add_modifiers (entity self) ms w1)))"
proof -
  let ?a = "zope_attribute desc" and ?e = "entity self"
  let ?w1 = "set_data ?e ?a (initializer desc self) (do_call (Call_initializer ?a ?e) w)"
  have first: "ComponentAttribute_get desc self w = Inr (initializer desc self, ?w1)"
    using unset fresh by (simp add: get_unset)
  have stored: "component_data (things ?w1 ?e) ?a = Some (initializer desc self)"
    by simp
  have mods: "modifiers (things ?w1 ?e) = []"
    using fresh by simp
  have again: "ComponentAttribute_get desc self ?w1 = Inr (initializer desc self, ?w1)"
    using stored mods by (simp add: get_stored)
  have later: "ComponentAttribute_get desc self (add_modifiers ?e ms ?w1) =
                  (case apply_modifiers ms ?a (initializer desc self) of
                     Inl x \<Rightarrow> Inl x
                   | Inr v \<Rightarrow> Inr (v, add_modifiers ?e ms ?w1))" for ms
  proof -
    have "component_data (things (add_modifiers ?e ms ?w1) ?e) ?a = Some (initializer desc self)"
      by (simp add: add_modifiers_def)
    moreover have "modifiers (things (add_modifiers ?e ms ?w1) ?e) = ms"
      using fresh by (simp add: add_modifiers_def)
    ultimately show ?thesis
      by (simp add: get_stored)
  qed
  show ?thesis
    using first stored again later by (intro exI [of _ ?w1]) simp
qed

theorem first_read_default_once_witness:
  "component_data (things salamango_world (entity (Component_init ICombatant 0)))
       (zope_attribute health) = None
   \<and> modifiers (things salamango_world (entity (Component_init ICombatant 0))) = []
   \<and> (\<exists>w1. ComponentAttribute_get health (Component_init ICombatant 0) salamango_world
                = Inr (IntV 10, w1)
          \<and> calls w1 = [Call_initializer (Attr ICombatant ''health'') 0]
          \<and> component_data (things w1 0) (Attr ICombatant ''health'') = Some (IntV 10)
          \<and> ComponentAttribute_get health (Component_init ICombatant 0) w1 = Inr (IntV 10, w1))"
proof -
  let ?b = "Component_init ICombatant 0"
  have unset: "component_data (things salamango_world (entity ?b)) (zope_attribute health) = None"
    by (simp add: salamango_world_def Thing_init_def)
  have fresh: "modifiers (things salamango_world (entity ?b)) = []"
    by (simp add: salamango_world_def Thing_init_def)
  have e: "entity ?b = 0" "zope_attribute health = Attr ICombatant ''health''"
    "initializer health ?b = IntV 10" "calls salamango_world = []"
    by (simp_all add: Component_init_def health_def salamango_world_def)
  from first_read_default_once [OF unset fresh] unset fresh show ?thesis
    unfolding e by auto
qed

subsection \<open>The thing types\<close>

lemma Wall_built: "Wall = Inr wall_type"
  by (simp add: Wall_def Architecture_def ThingType_init_def wall_type_def)

lemma Floor_built:
  "Floor = Inr \<lparr>layer = architecture, name = ''dirt'', tmp_rendering = (0xB7, ''floor''),
                 type_modifiers = [], components = [(IPhysics, Empty)]\<rparr>"
  by (simp add: Floor_def Architecture_def ThingType_init_def)

lemma Player_built: "Player = Inr player_type"
  by (simp add: Player_def Creature_def ThingType_init_def player_type_def)

lemma Salamango_built: "Salamango = Inr salamango_type"
  by (simp add: Salamango_def Creature_def ThingType_init_def salamango_type_def)

lemma Potion_built:
  "Potion = Inr \<lparr>layer = item, name = ''potion'', tmp_rendering = (0xF0, ''default''),
                  type_modifiers = [],
                  components = [(IPortable, Portable), (IUsable, UsablePotion)]\<rparr>"
  by (simp add: Potion_def Item_def ThingType_init_def)

lemma Armor_built: "Armor = Inr armor_type"
  by (simp add: Armor_def Item_def ThingType_init_def armor_type_def)

subsection \<open>Combatant\<close>

lemma handle_damage_stored:
  assumes stored: "component_data (things w (entity self)) (zope_attribute health) = Some (IntV h)"
  shows "Combatant_handle_damage self ev w =
     (let d = matching_adds (modifiers (things w (entity self))) (zope_attribute health);
          w1 = ComponentAttribute_set health self (IntV (h + d - amount ev)) w
      in Inr (ev, if h + d - amount ev + d \<le> 0
                  then do_call (Queue_immediate_event (New_Die (entity self))) w1 else w1))"
proof -
  let ?a = "zope_attribute health" and ?e = "entity self"
  let ?d = "matching_adds (modifiers (things w ?e)) ?a"
  let ?w1 = "ComponentAttribute_set health self (IntV (h + ?d - amount ev)) w"
  have r1: "ComponentAttribute_get health self w = Inr (IntV (h + ?d), w)"
    using stored by (simp add: get_stored apply_modifiers_int)
  have r2: "ComponentAttribute_get health self ?w1 = Inr (IntV (h + ?d - amount ev + ?d), ?w1)"
    by (simp add: get_stored apply_modifiers_int ComponentAttribute_set_def)
  show ?thesis
    unfolding Combatant_handle_damage_def by (simp add: r1 r2 Let_def)
qed

lemma handle_damage_unset:
  assumes unset: "component_data (things w (entity self)) (zope_attribute health) = None"
    and nomods: "modifiers (things w (entity self)) = []"
  shows "Combatant_handle_damage self ev w =
     (let w0 = ComponentAttribute_set health self (IntV 10)
                 (do_call (Call_initializer (zope_attribute health) (entity self)) w);
          w1 = ComponentAttribute_set health self (IntV (10 - amount ev)) w0
      in Inr (ev, if 10 - amount ev \<le> 0
                  then do_call (Queue_immediate_event (New_Die (entity self))) w1 else w1))"
proof -
  let ?a = "zope_attribute health" and ?e = "entity self"
  let ?w0 = "ComponentAttribute_set health self (IntV 10) (do_call (Call_initializer ?a ?e) w)"
  let ?w1 = "ComponentAttribute_set health self (IntV (10 - amount ev)) ?w0"
  have init: "initializer health self = IntV 10"
    by (simp add: health_def)
  have r1: "ComponentAttribute_get health self w = Inr (IntV 10, ?w0)"
    using unset nomods by (simp add: get_unset init ComponentAttribute_set_def)
  have "modifiers (things ?w1 ?e) = []"
    using nomods by (simp add: ComponentAttribute_set_def)
  moreover have "component_data (things ?w1 ?e) ?a = Some (IntV (10 - amount ev))"
    by (simp add: ComponentAttribute_set_def)
  ultimately have r2: "ComponentAttribute_get health self ?w1 = Inr (IntV (10 - amount ev), ?w1)"
    by (simp add: get_stored)
  show ?thesis
    unfolding Combatant_handle_damage_def by (simp add: r1 r2 Let_def)
qed

text \<open>
  C9. With stored health \<open>h\<close> and modifiers that add \<open>d\<close> to the health slot, the
  Damage handler of Combatant stores \<open>h + d - amount\<close> as the new raw health (not
  \<open>h - amount\<close>), and the next read adds \<open>d\<close> once more.
\<close>

theorem damage_bakes_modifiers:
  assumes stored: "component_data (things w (entity self)) (zope_attribute health) = Some (IntV h)"
    and d: "d = matching_adds (modifiers (things w (entity self))) (zope_attribute health)"
  shows "\<exists>w'. Combatant_handle_damage self ev w = Inr (ev, w')
           \<and> component_data (things w' (entity self)) (zope_attribute health)
                 = Some (IntV (h + d - amount ev))
           \<and> ComponentAttribute_get health self w' = Inr (IntV (h + d - amount ev + d), w')"
proof -
  let ?a = "zope_attribute health" and ?e = "entity self"
  let ?w1 = "ComponentAttribute_set health self (IntV (h + d - amount ev)) w"
  let ?w' = "if h + d - amount ev + d \<le> 0
             then do_call (Queue_immediate_event (New_Die ?e)) ?w1 else ?w1"
  have run: "Combatant_handle_damage self ev w = Inr (ev, ?w')"
    using handle_damage_stored [OF stored, of ev] d by (simp add: Let_def)
  have data: "component_data (things ?w' ?e) ?a = Some (IntV (h + d - amount ev))"
    by (simp add: ComponentAttribute_set_def)
  have mods: "modifiers (things ?w' ?e) = modifiers (things w ?e)"
    by (simp add: ComponentAttribute_set_def)
  have "ComponentAttribute_get health self ?w' = Inr (IntV (h + d - amount ev + d), ?w')"
    using data mods d by (simp only: get_stored apply_modifiers_int sum.case)
  with run data show ?thesis by blast
qed

theorem damage_bakes_modifiers_witness:
  "component_data
      (things blessed_world
         (entity (Component_init ICombatant 0))) (zope_attribute health) = Some (IntV 10)
   \<and> (2::int) = matching_adds
        (modifiers (things blessed_world
           (entity (Component_init ICombatant 0)))) (zope_attribute health)
   \<and> (\<exists>w'. Combatant_handle_damage (Component_init ICombatant 0) (damage_event 5)
               blessed_world
               = Inr (damage_event 5, w')
          \<and> component_data (things w' 0) (Attr ICombatant ''health'') = Some (IntV 7)
          \<and> ComponentAttribute_get health (Component_init ICombatant 0) w' = Inr (IntV 9, w'))"
proof -
  let ?b = "Component_init ICombatant 0"
  let ?w = "blessed_world"
  have e: "entity ?b = 0" "zope_attribute health = Attr ICombatant ''health''"
    "amount (damage_event 5) = 5"
    by (simp_all add: Component_init_def health_def damage_event_def)
  have stored: "component_data (things ?w (entity ?b)) (zope_attribute health) = Some (IntV 10)"
    by (simp add: e blessed_world_def)
  have d: "(2::int) = matching_adds (modifiers (things ?w (entity ?b))) (zope_attribute health)"
    by (simp add: e blessed_world_def matching_adds_def salamango_world_def Thing_init_def)
  from damage_bakes_modifiers [OF stored d, of "damage_event 5"] stored d show ?thesis
    unfolding e by auto
qed

text \<open>
  C2. A Combatant entity without modifiers and with unwritten health handles Damage(5):
  the stored health becomes 5 and nothing is queued (the only call is the one of the
  default-provider). A second Damage(5) stores 0 and calls
  \<open>queue_immediate_event(Die(entity))\<close>. For every stored health and amount, without
  modifiers, the Die event is queued exactly when the health after the decrement is at
  most 0. Handling a Die event calls \<open>current_map.remove(entity)\<close>.
\<close>

theorem combatant_damage_scenario:
  assumes unset: "component_data (things w (entity self)) (zope_attribute health) = None"
    and nomods: "modifiers (things w (entity self)) = []"
    and five: "amount ev = 5"
  shows "\<exists>w1 w2.
           Combatant_handle_damage self ev w = Inr (ev, w1)
         \<and> component_data (things w1 (entity self)) (zope_attribute health) = Some (IntV 5)
         \<and> calls w1 = calls w @ [Call_initializer (zope_attribute health) (entity self)]
         \<and> Combatant_handle_damage self ev w1 = Inr (ev, w2)
         \<and> component_data (things w2 (entity self)) (zope_attribute health) = Some (IntV 0)
         \<and> calls w2 = calls w1 @ [Queue_immediate_event (New_Die (entity self))]
         \<and> (\<forall>h ev' u. component_data (things u (entity self)) (zope_attribute health)
                          = Some (IntV h)
                       \<and> modifiers (things u (entity self)) = [] \<longrightarrow>
                (\<exists>u'. Combatant_handle_damage self ev' u = Inr (ev', u')
                    \<and> component_data (things u' (entity self)) (zope_attribute health)
                          = Some (IntV (h - amount ev'))
                    \<and> calls u' = calls u @ (if h - amount ev' \<le> 0
                         then [Queue_immediate_event (New_Die (entity self))] else [])))
         \<and> (\<forall>ev'. Combatant_handle_death self ev' w2 =
                Inr (ev', w2\<lparr>calls := calls w2 @
                       [Print (name (type (things w (entity self))) @ '' has died''),
                        Map_remove (entity self)]\<rparr>))"
proof -
  let ?a = "zope_attribute health" and ?e = "entity self"
  let ?w0 = "ComponentAttribute_set health self (IntV 10) (do_call (Call_initializer ?a ?e) w)"
  let ?w1 = "ComponentAttribute_set health self (IntV 5) ?w0"
  let ?w2 = "do_call (Queue_immediate_event (New_Die ?e))
               (ComponentAttribute_set health self (IntV 0) ?w1)"
  have general: "\<exists>u'. Combatant_handle_damage self ev' u = Inr (ev', u')
                    \<and> component_data (things u' ?e) ?a = Some (IntV (h - amount ev'))
                    \<and> calls u' = calls u @ (if h - amount ev' \<le> 0
                         then [Queue_immediate_event (New_Die ?e)] else [])"
    if "component_data (things u ?e) ?a = Some (IntV h)" and "modifiers (things u ?e) = []"
    for h ev' u
    using handle_damage_stored [OF that(1), of ev'] that(2)
    by (simp add: Let_def matching_adds_def ComponentAttribute_set_def)
  have first: "Combatant_handle_damage self ev w = Inr (ev, ?w1)"
    using handle_damage_unset [OF unset nomods, of ev] five by (simp add: Let_def)
  have data1: "component_data (things ?w1 ?e) ?a = Some (IntV 5)"
    by (simp add: ComponentAttribute_set_def)
  have calls1: "calls ?w1 = calls w @ [Call_initializer ?a ?e]"
    by (simp add: ComponentAttribute_set_def)
  have mods1: "modifiers (things ?w1 ?e) = []"
    using nomods by (simp add: ComponentAttribute_set_def)
  have second: "Combatant_handle_damage self ev ?w1 = Inr (ev, ?w2)"
    using handle_damage_stored [OF data1, of ev] mods1 five
    by (simp add: Let_def matching_adds_def)
  have data2: "component_data (things ?w2 ?e) ?a = Some (IntV 0)"
    by (simp add: ComponentAttribute_set_def)
  have calls2: "calls ?w2 = calls ?w1 @ [Queue_immediate_event (New_Die ?e)]"
    by (simp add: ComponentAttribute_set_def)
  have type2: "type (things ?w2 ?e) = type (things w ?e)"
    by (simp add: ComponentAttribute_set_def)
  have death: "Combatant_handle_death self ev' ?w2 =
                Inr (ev', ?w2\<lparr>calls := calls ?w2 @
                       [Print (name (type (things w ?e)) @ '' has died''), Map_remove ?e]\<rparr>)"
    for ev'
    unfolding Combatant_handle_death_def type2 by (simp add: do_call_def)
  show ?thesis
    using first data1 calls1 second data2 calls2 general death
    by (intro exI [of _ ?w1] exI [of _ ?w2]) blast
qed

theorem combatant_damage_scenario_witness:
  "component_data (things salamango_world (entity (Component_init ICombatant 0)))
       (zope_attribute health) = None
   \<and> modifiers (things salamango_world (entity (Component_init ICombatant 0))) = []
   \<and> amount (damage_event 5) = 5
   \<and> (\<exists>w1 w2.
         Combatant_handle_damage (Component_init ICombatant 0) (damage_event 5) salamango_world
           = Inr (damage_event 5, w1)
       \<and> component_data (things w1 0) (Attr ICombatant ''health'') = Some (IntV 5)
       \<and> calls w1 = [Call_initializer (Attr ICombatant ''health'') 0]
       \<and> Combatant_handle_damage (Component_init ICombatant 0) (damage_event 5) w1
           = Inr (damage_event 5, w2)
       \<and> component_data (things w2 0) (Attr ICombatant ''health'') = Some (IntV 0)
       \<and> calls w2 = [Call_initializer (Attr ICombatant ''health'') 0,
                      Queue_immediate_event (New_Die 0)])"
proof -
  let ?b = "Component_init ICombatant 0"
  have unset: "component_data (things salamango_world (entity ?b)) (zope_attribute health) = None"
    by (simp add: salamango_world_def Thing_init_def)
  have fresh: "modifiers (things salamango_world (entity ?b)) = []"
    by (simp add: salamango_world_def Thing_init_def)
  have five: "amount (damage_event 5) = 5"
    by (simp add: damage_event_def)
  have e: "entity ?b = 0" "zope_attribute health = Attr ICombatant ''health''"
    "calls salamango_world = []"
    by (simp_all add: Component_init_def health_def salamango_world_def)
  from combatant_damage_scenario [OF unset fresh five]
  obtain w1 w2 where
    "Combatant_handle_damage ?b (damage_event 5) salamango_world = Inr (damage_event 5, w1)"
    "component_data (things w1 0) (Attr ICombatant ''health'') = Some (IntV 5)"
    "calls w1 = [Call_initializer (Attr ICombatant ''health'') 0]"
    "Combatant_handle_damage ?b (damage_event 5) w1 = Inr (damage_event 5, w2)"
    "component_data (things w2 0) (Attr ICombatant ''health'') = Some (IntV 0)"
    "calls w2 = calls w1 @ [Queue_immediate_event (New_Die 0)]"
    unfolding e by auto
  with unset fresh five show ?thesis
    by auto
qed

subsection \<open>Handler tables\<close>

lemma append_handler_table:
  "append_handler f cs t c = t c @ map (\<lambda>k. f) (filter (\<lambda>k. k = c) cs)"
  by (induction cs arbitrary: t) auto

lemma collect_handlers_table:
  "fst (collect_handlers items (t, attrs)) c = t c @ declared_handlers items c"
proof (induction items "(t, attrs)" arbitrary: t attrs rule: collect_handlers.induct)
  case 1
  show ?case by (simp add: declared_handlers_def)
next
  case (2 key h rest t attrs)
  then show ?case
    by (simp add: declared_handlers_def append_handler_table)
next
  case (3 key rest t attrs)
  then show ?case by (simp add: declared_handlers_def)
qed

lemma event_handlers_ComponentMeta_new:
  "event_handlers (ComponentMeta_new n bases attrs) c = declared_handlers attrs c"
  using collect_handlers_table [of attrs "\<lambda>c. []" attrs c]
  by (auto simp: ComponentMeta_new_def split: prod.splits)

lemma Solid_table:
  "event_handlers Solid_class k = (if k = Walk then [Solid_handle_walk] else [])"
  by (simp add: Solid_class_def event_handlers_ComponentMeta_new declared_handlers_def
        handler_def)

lemma Combatant_table:
  "event_handlers Combatant_class k =
     (if k = Damage then [Combatant_handle_damage]
      else if k = MeleeAttack then [Combatant_handle_attack]
      else if k = Die then [Combatant_handle_death] else [])"
  by (simp add: Combatant_class_def event_handlers_ComponentMeta_new declared_handlers_def
        handler_def)

lemma Equipment_table:
  "event_handlers Equipment_class k = (if k = Equip then [Equipment_handle_equip] else [])"
  by (simp add: Equipment_class_def event_handlers_ComponentMeta_new declared_handlers_def
        handler_def)

lemma Portable_table:
  "event_handlers Portable_class k = (if k = PickUp then [Portable_handle_picked_up] else [])"
  by (simp add: Portable_class_def event_handlers_ComponentMeta_new declared_handlers_def
        handler_def)

lemma no_handlers_table:
  "event_handlers Container_class k = []" "event_handlers GenericAI_class k = []"
  "event_handlers PlayerIntelligence_class k = []" "event_handlers UsablePotion_class k = []"
  "event_handlers Component_class k = []"
  by (simp_all add: Container_class_def GenericAI_class_def PlayerIntelligence_class_def
        UsablePotion_class_def Component_class_def event_handlers_ComponentMeta_new
        declared_handlers_def)

text \<open>
  C8. The handler table of a component class holds the handlers that the class's own
  body declares, in declaration order; it does not depend on the bases, and a class with
  no handler in its body has an empty table whatever its bases declare.
\<close>

theorem handler_table_own_body:
  "event_handlers (ComponentMeta_new n bases attrs) c = declared_handlers attrs c
   \<and> event_handlers (ComponentMeta_new n bases attrs) = event_handlers (ComponentMeta_new n [] attrs)
   \<and> event_handlers (ComponentMeta_new n bases []) c = []"
  by (simp add: fun_eq_iff event_handlers_ComponentMeta_new) (simp add: declared_handlers_def)

lemma subclass_table_example:
  "event_handlers Solid_class Walk = [Solid_handle_walk]
   \<and> event_handlers (ComponentMeta_new ''Boulder'' [Solid] [(''blocks'', OtherV)]
        :: handler_fn component_class) Walk = []"
  by (simp add: Solid_table event_handlers_ComponentMeta_new declared_handlers_def)

subsection \<open>Dispatch\<close>

lemma call_handlers_append:
  "call_handlers (hs @ hs') self ev w =
     (case call_handlers hs self ev w of
        Inl x \<Rightarrow> Inl x
      | Inr (ev', w') \<Rightarrow> call_handlers hs' self ev' w')"
  by (induction hs arbitrary: ev w) (auto split: sum.splits)

lemma handle_classes_flat:
  "handle_classes t cs self ev w = call_handlers (concat (map t cs)) self ev w"
  by (induction cs arbitrary: ev w) (auto simp: call_handlers_append split: sum.splits)

lemma in_order_Nil: "in_order [] ev w = Inr (ev, w)"
  by (simp add: in_order_def)

lemma in_order_Cons:
  "in_order (f # fs) ev w =
     (case f ev w of Inl x \<Rightarrow> Inl x | Inr (ev', w') \<Rightarrow> in_order fs ev' w')"
  by (simp add: in_order_def then_do_def split: sum.splits prod.splits)

lemma in_order_append:
  "in_order (fs @ gs) ev w =
     (case in_order fs ev w of Inl x \<Rightarrow> Inl x | Inr (ev', w') \<Rightarrow> in_order gs ev' w')"
  by (induction fs arbitrary: ev w) (auto simp: in_order_Nil in_order_Cons split: sum.splits)

lemma call_handlers_in_order:
  "call_handlers hs self ev w = in_order (map (\<lambda>h. h self) hs) ev w"
  by (induction hs arbitrary: ev w) (auto simp: in_order_Nil in_order_Cons split: sum.splits)

lemma Component_handle_event_in_order:
  "Component_handle_event cls self ev w =
     in_order (map (\<lambda>h. h self) (concat (map (event_handlers cls) (mro ev)))) ev w"
  by (simp add: Component_handle_event_def handle_classes_flat call_handlers_in_order)

lemma handle_components_in_order:
  "handle_components env comps e ev w = in_order (map (component_action env e) comps) ev w"
proof (induction comps arbitrary: ev w)
  case Nil
  show ?case by (simp add: in_order_Nil)
next
  case (Cons ic comps)
  obtain i c where ic: "ic = (i, c)" by (cases ic)
  have "component_action env e (i, c) ev w =
          Component_handle_event (env c) (Component_init i e) ev w"
    by (simp add: component_action_def Component_handle_event_in_order)
  with Cons.IH show ?case
    by (simp add: ic in_order_Cons split: sum.splits)
qed

lemma declared_in_hierarchy:
  "c \<in> set cs \<Longrightarrow> h \<in> set (t c) \<Longrightarrow> \<exists>pre post. concat (map t cs) = pre @ h # post"
proof -
  assume "c \<in> set cs" "h \<in> set (t c)"
  then have "h \<in> set (concat (map t cs))" by auto
  then show ?thesis by (simp add: split_list)
qed

text \<open>
  C4. Dispatch to a component invokes, for the classes of \<open>type(event).__mro__\<close> in
  order, from the concrete class to the root, every handler that the class body declares
  for the class, in declaration order, each on the event and the world that the one
  before it left; \<open>Thing.handle_event\<close> does so for each component of the entity's type
  in turn. So a handler at any place of that sequence is called once those before it
  have returned, and a handler declared for an ancestor class has a place in the
  sequence of an event of a subclass.
\<close>

theorem dispatch_hierarchy_order:
  "Component_handle_event (ComponentMeta_new n bases attrs) self ev w =
     in_order (map (\<lambda>h. h self) (concat (map (declared_handlers attrs) (mro ev)))) ev w
   \<and> Thing_handle_event env e ev w =
       in_order (map (component_action env e) (components (type (things w e)))) ev w
   \<and> (\<forall>pre h post.
         concat (map (declared_handlers attrs) (mro ev)) = pre @ h # post \<longrightarrow>
         Component_handle_event (ComponentMeta_new n bases attrs) self ev w =
           (case in_order (map (\<lambda>g. g self) pre) ev w of
              Inl x \<Rightarrow> Inl x
            | Inr (ev1, w1) \<Rightarrow>
                (case h self ev1 w1 of
                   Inl x \<Rightarrow> Inl x
                 | Inr (ev2, w2) \<Rightarrow> in_order (map (\<lambda>g. g self) post) ev2 w2)))
   \<and> (\<forall>c h. c \<in> set (mro ev) \<and> h \<in> set (declared_handlers attrs c) \<longrightarrow>
         (\<exists>pre post. concat (map (declared_handlers attrs) (mro ev)) = pre @ h # post))"
proof -
  have table: "event_handlers (ComponentMeta_new n bases attrs) = declared_handlers attrs"
    by (rule ext) (rule event_handlers_ComponentMeta_new)
  have comp: "Component_handle_event (ComponentMeta_new n bases attrs) self ev w =
     in_order (map (\<lambda>h. h self) (concat (map (declared_handlers attrs) (mro ev)))) ev w"
    by (simp add: Component_handle_event_in_order table)
  have thing: "Thing_handle_event env e ev w =
       in_order (map (component_action env e) (components (type (things w e)))) ev w"
    by (simp add: Thing_handle_event_def handle_components_in_order)
  have split: "Component_handle_event (ComponentMeta_new n bases attrs) self ev w =
           (case in_order (map (\<lambda>g. g self) pre) ev w of
              Inl x \<Rightarrow> Inl x
            | Inr (ev1, w1) \<Rightarrow>
                (case h self ev1 w1 of
                   Inl x \<Rightarrow> Inl x
                 | Inr (ev2, w2) \<Rightarrow> in_order (map (\<lambda>g. g self) post) ev2 w2))"
    if "concat (map (declared_handlers attrs) (mro ev)) = pre @ h # post" for pre h post
    unfolding comp that by (simp add: in_order_append in_order_Cons split: sum.splits)
  have found: "\<exists>pre post. concat (map (declared_handlers attrs) (mro ev)) = pre @ h # post"
    if "c \<in> set (mro ev)" "h \<in> set (declared_handlers attrs c)" for c h
    using that by (rule declared_in_hierarchy)
  from comp thing split found show ?thesis
    by blast
qed

theorem dispatch_hierarchy_order_witness:
  "concat (map (declared_handlers logging_body) (mro melee_event)) = [log_special] @ log_general # []
   \<and> OtherEvent ''Attack'' \<in> set (mro melee_event)
   \<and> log_general \<in> set (declared_handlers logging_body (OtherEvent ''Attack''))
   \<and> Component_handle_event (ComponentMeta_new ''Fighter'' [Component] logging_body)
         (Component_init ICombatant 0) melee_event fighter_world
       = Inr (melee_event, fighter_world\<lparr>calls := [Print ''special'', Print ''general'']\<rparr>)
   \<and> Thing_handle_event fighter_classes 0 melee_event fighter_world
       = Inr (melee_event, fighter_world\<lparr>calls := [Print ''special'', Print ''general'']\<rparr>)"
proof -
  let ?cls = "ComponentMeta_new ''Fighter'' [Component] logging_body :: handler_fn component_class"
  let ?self = "Component_init ICombatant 0"
  let ?done = "fighter_world\<lparr>calls := [Print ''special'', Print ''general'']\<rparr>"
  note order = dispatch_hierarchy_order [of "''Fighter''" "[Component]" logging_body ?self
      melee_event fighter_world fighter_classes 0]
  have flat: "concat (map (declared_handlers logging_body) (mro melee_event))
                = [log_special] @ log_general # []"
    by (simp add: declared_handlers_def logging_body_def handler_def melee_event_def)
  have anc: "OtherEvent ''Attack'' \<in> set (mro melee_event)"
    by (simp add: melee_event_def)
  have decl: "log_general \<in> set (declared_handlers logging_body (OtherEvent ''Attack''))"
    by (simp add: declared_handlers_def logging_body_def handler_def)
  have calls0: "calls fighter_world = []"
    by (simp add: fighter_world_def)
  from order flat
  have "Component_handle_event ?cls ?self melee_event fighter_world =
          (case in_order (map (\<lambda>g. g ?self) [log_special]) melee_event fighter_world of
             Inl x \<Rightarrow> Inl x
           | Inr (ev1, w1) \<Rightarrow>
               (case log_general ?self ev1 w1 of
                  Inl x \<Rightarrow> Inl x
                | Inr (ev2, w2) \<Rightarrow> in_order (map (\<lambda>g. g ?self) []) ev2 w2))"
    by blast
  then have comp: "Component_handle_event ?cls ?self melee_event fighter_world
                     = Inr (melee_event, ?done)"
    by (simp add: in_order_Nil in_order_Cons log_special_def log_general_def do_call_def calls0)
  have table: "event_handlers (fighter_classes (OtherComponent ''Fighter'')) =
                 declared_handlers logging_body"
    by (rule ext) (simp add: fighter_classes_def event_handlers_ComponentMeta_new)
  from order
  have "Thing_handle_event fighter_classes 0 melee_event fighter_world =
          in_order (map (component_action fighter_classes 0)
                      (components (type (things fighter_world 0)))) melee_event fighter_world"
    by blast
  then have thing: "Thing_handle_event fighter_classes 0 melee_event fighter_world
                      = Inr (melee_event, ?done)"
    by (simp add: fighter_world_def Thing_init_def fighter_type_def in_order_Nil in_order_Cons
          component_action_def table flat log_special_def log_general_def do_call_def)
  from flat anc decl comp thing show ?thesis
    by (intro conjI)
qed

lemma handle_classes_none:
  "\<forall>k\<in>set cs. t k = [] \<Longrightarrow> handle_classes t cs self ev w = Inr (ev, w)"
  by (induction cs) simp_all

lemma handle_components_none:
  "\<forall>ic\<in>set comps. \<forall>k\<in>set (mro ev). event_handlers (env (snd ic)) k = [] \<Longrightarrow>
   handle_components env comps e ev w = Inr (ev, w)"
proof (induction comps)
  case Nil
  show ?case by simp
next
  case (Cons ic comps)
  obtain i c where ic: "ic = (i, c)" by (cases ic)
  from Cons.prems have "\<forall>k\<in>set (mro ev). event_handlers (env c) k = []"
    by (simp add: ic)
  then have "Component_handle_event (env c) (Component_init i e) ev w = Inr (ev, w)"
    by (simp add: Component_handle_event_def handle_classes_none)
  moreover have "handle_components env comps e ev w = Inr (ev, w)"
    using Cons by simp
  ultimately show ?case by (simp add: ic)
qed

text \<open>
  C10. A component that has no handler for any class of the event's hierarchy is
  skipped. When no component of the entity's type has one, dispatching the event returns
  without an error and leaves the event and the whole world, so also the entity's
  attribute data and modifiers, unchanged.
\<close>

theorem dispatch_without_handlers:
  "((\<forall>k\<in>set (mro ev). event_handlers (env c) k = []) \<longrightarrow>
      handle_components env ((i, c) # rest) e ev w = handle_components env rest e ev w)
   \<and> ((\<forall>ic\<in>set (components (type (things w e))).
          \<forall>k\<in>set (mro ev). event_handlers (env (snd ic)) k = []) \<longrightarrow>
        Thing_handle_event env e ev w = Inr (ev, w))"
  by (simp add: Thing_handle_event_def handle_components_none Component_handle_event_def
        handle_classes_none)

theorem dispatch_without_handlers_witness:
  "components (type (things wall_world 0)) = [(IPhysics, Solid)]
   \<and> mro (equip_event 5) = [Equip, Event, PyObject]
   \<and> event_handlers (flax_classes Solid) Equip = []
   \<and> event_handlers (flax_classes Solid) Event = []
   \<and> event_handlers (flax_classes Solid) PyObject = []
   \<and> Thing_handle_event flax_classes 0 (equip_event 5) wall_world
       = Inr (equip_event 5, wall_world)"
proof -
  have comps: "components (type (things wall_world 0)) = [(IPhysics, Solid)]"
    by (simp add: wall_world_def Thing_init_def wall_type_def)
  have classes: "mro (equip_event 5) = [Equip, Event, PyObject]"
    by (simp add: equip_event_def)
  have tables: "event_handlers (flax_classes Solid) Equip = []"
    "event_handlers (flax_classes Solid) Event = []"
    "event_handlers (flax_classes Solid) PyObject = []"
    by (simp_all add: Solid_table)
  have none: "\<forall>ic\<in>set (components (type (things wall_world 0))).
      \<forall>k\<in>set (mro (equip_event 5)). event_handlers (flax_classes (snd ic)) k = []"
    by (simp add: comps classes Solid_table)
  from dispatch_without_handlers [of "equip_event 5" flax_classes Solid IPhysics "[]" 0 wall_world]
    none
  have "Thing_handle_event flax_classes 0 (equip_event 5) wall_world
       = Inr (equip_event 5, wall_world)"
    by blast
  with comps classes tables show ?thesis
    by simp
qed

lemma cancel_twice: "cancel (cancel ev) = cancel ev"
  by (simp add: cancel_def)

lemma Solid_handle_classes:
  "handle_classes (event_handlers Solid_class) cs self ev w =
     Inr (if Walk \<in> set cs then cancel ev else ev, w)"
  by (induction cs arbitrary: ev)
     (simp_all add: Solid_table Solid_handle_walk_def cancel_twice)

lemma gate_built:
  "ThingType_init watcher_implementedBy [Solid, OtherComponent ''Watcher''] architecture
     ''gate'' (0x2B, ''default'') [] = Inr gate_type"
  by (simp add: ThingType_init_def watcher_implementedBy_def gate_type_def)

lemma Watcher_table:
  "event_handlers Watcher_class k = (if k = Walk then [log_general] else [])"
  by (simp add: Watcher_class_def event_handlers_ComponentMeta_new declared_handlers_def
        handler_def)

text \<open>
  C3. The Walk handler of Solid sets the event's \<open>cancelled\<close> flag and leaves the world
  as it is (no call of \<open>current_map.move\<close>). Dispatch goes on after that: a handler that
  follows it in the list is called on the cancelled event, so are all that follow, and
  every component that follows Solid in the entity's type has its handlers invoked on
  the cancelled event.
\<close>

theorem solid_cancels_walk:
  assumes solid: "env Solid = Solid_class"
    and walk: "Walk \<in> set (mro ev)"
  shows "Solid_handle_walk self ev w = Inr (ev\<lparr>cancelled := True\<rparr>, w)
       \<and> Component_handle_event (env Solid) self ev w = Inr (ev\<lparr>cancelled := True\<rparr>, w)
       \<and> call_handlers [Solid_handle_walk, h] self ev w = h self (ev\<lparr>cancelled := True\<rparr>) w
       \<and> call_handlers (Solid_handle_walk # hs) self ev w
           = in_order (map (\<lambda>g. g self) hs) (ev\<lparr>cancelled := True\<rparr>) w
       \<and> handle_components env ((i, Solid) # rest) e ev w
           = in_order (map (component_action env e) rest) (ev\<lparr>cancelled := True\<rparr>) w
       \<and> (components (type (things w e)) = (i, Solid) # rest \<longrightarrow>
            Thing_handle_event env e ev w
              = in_order (map (component_action env e) rest) (ev\<lparr>cancelled := True\<rparr>) w)"
proof -
  have own: "Solid_handle_walk self ev w = Inr (ev\<lparr>cancelled := True\<rparr>, w)"
    by (simp add: Solid_handle_walk_def cancel_def)
  have comp: "Component_handle_event (env Solid) b ev w = Inr (ev\<lparr>cancelled := True\<rparr>, w)" for b
    using walk by (simp add: solid Component_handle_event_def Solid_handle_classes cancel_def)
  have next_one: "call_handlers [Solid_handle_walk, h] self ev w
                    = h self (ev\<lparr>cancelled := True\<rparr>) w"
    by (simp add: own split: sum.splits)
  have next_all: "call_handlers (Solid_handle_walk # hs) self ev w
                    = in_order (map (\<lambda>g. g self) hs) (ev\<lparr>cancelled := True\<rparr>) w"
    by (simp add: own call_handlers_in_order in_order_Cons)
  have others: "handle_components env ((i, Solid) # rest) e ev w
                  = in_order (map (component_action env e) rest) (ev\<lparr>cancelled := True\<rparr>) w"
    using handle_components_in_order [of env rest e] by (simp add: comp)
  from own comp next_one next_all others show ?thesis
    by (simp add: Thing_handle_event_def)
qed

theorem solid_cancels_walk_witness:
  "watcher_classes Solid = Solid_class
   \<and> Walk \<in> set (mro (walk_event 7 (1, 2)))
   \<and> components (type (things gate_world 0))
       = (IPhysics, Solid) # [(OtherIface ''IWatcher'', OtherComponent ''Watcher'')]
   \<and> Thing_handle_event watcher_classes 0 (walk_event 7 (1, 2)) gate_world
       = Inr ((walk_event 7 (1, 2))\<lparr>cancelled := True\<rparr>,
              gate_world\<lparr>calls := [Print ''general'']\<rparr>)
   \<and> call_handlers [Solid_handle_walk, log_general] (Component_init IPhysics 0)
         (walk_event 7 (1, 2)) gate_world
       = Inr ((walk_event 7 (1, 2))\<lparr>cancelled := True\<rparr>,
              gate_world\<lparr>calls := [Print ''general'']\<rparr>)"
proof -
  let ?ev = "walk_event 7 (1, 2)"
  let ?rest = "[(OtherIface ''IWatcher'', OtherComponent ''Watcher'')]"
  have solid: "watcher_classes Solid = Solid_class"
    by (simp add: watcher_classes_def)
  have walk: "Walk \<in> set (mro ?ev)"
    by (simp add: walk_event_def)
  have comps: "components (type (things gate_world 0)) = (IPhysics, Solid) # ?rest"
    by (simp add: gate_world_def Thing_init_def gate_type_def)
  have calls0: "calls gate_world = []"
    by (simp add: gate_world_def)
  note cancels = solid_cancels_walk [where env = watcher_classes and ev = ?ev
      and w = gate_world and e = 0 and i = IPhysics and rest = ?rest
      and self = "Component_init IPhysics 0" and h = log_general, OF solid walk]
  from cancels comps
  have "Thing_handle_event watcher_classes 0 ?ev gate_world
          = in_order (map (component_action watcher_classes 0) ?rest)
              (?ev\<lparr>cancelled := True\<rparr>) gate_world"
    by blast
  then have thing: "Thing_handle_event watcher_classes 0 ?ev gate_world
                      = Inr (?ev\<lparr>cancelled := True\<rparr>, gate_world\<lparr>calls := [Print ''general'']\<rparr>)"
    by (simp add: in_order_Nil in_order_Cons component_action_def watcher_classes_def
          Watcher_table walk_event_def log_general_def do_call_def calls0)
  from cancels
  have "call_handlers [Solid_handle_walk, log_general] (Component_init IPhysics 0) ?ev gate_world
          = log_general (Component_init IPhysics 0) (?ev\<lparr>cancelled := True\<rparr>) gate_world"
    by blast
  then have list: "call_handlers [Solid_handle_walk, log_general] (Component_init IPhysics 0)
                     ?ev gate_world
                   = Inr (?ev\<lparr>cancelled := True\<rparr>, gate_world\<lparr>calls := [Print ''general'']\<rparr>)"
    by (simp only: log_general_def do_call_def calls0 append_Nil)
  from solid walk comps thing list show ?thesis
    by (intro conjI)
qed

lemma damage_dispatch_example:
  "(case Thing_handle_event flax_classes 0 (damage_event 12) salamango_world of
      Inl x \<Rightarrow> False
    | Inr (ev, w) \<Rightarrow>
        ev = damage_event 12
        \<and> component_data (things w 0) (Attr ICombatant ''health'') = Some (IntV (- 2))
        \<and> calls w = [Call_initializer (Attr ICombatant ''health'') 0,
                      Queue_immediate_event (New_Die 0)])"
  by (simp add: Thing_handle_event_def salamango_world_def Thing_init_def salamango_type_def
        Component_handle_event_def Solid_table Combatant_table no_handlers_table
        damage_event_def Combatant_handle_damage_def ComponentAttribute_get_def
        ComponentAttribute_set_def health_def Component_init_def set_data_def do_call_def
        Let_def)

subsection \<open>Equipment\<close>

text \<open>
  C5. The Equip handler of Equipment appends the modifiers of the item's type, whatever
  the item's own modifier list is and without any condition, to the modifiers of
  \<open>event.actor\<close>. When the item is an Armor, a read of the wearer's strength that gave
  \<open>s\<close> before gives \<open>s + 3\<close> afterwards, and so does a read after any later write.
\<close>

theorem equip_appends_type_modifiers:
  "\<exists>w'. Equipment_handle_equip self ev w = Inr (ev, w')
     \<and> modifiers (things w' (actor ev))
         = modifiers (things w (actor ev)) @ type_modifiers (type (things w (entity self)))
     \<and> (type (things w (entity self)) = armor_type \<longrightarrow>
          (\<forall>s w1. ComponentAttribute_get strength (Component_init ICombatant (actor ev)) w
                     = Inr (IntV s, w1) \<longrightarrow>
             (\<exists>w2. ComponentAttribute_get strength (Component_init ICombatant (actor ev)) w'
                     = Inr (IntV (s + 3), w2)))
        \<and> (\<forall>v. \<exists>w2. ComponentAttribute_get strength (Component_init ICombatant (actor ev))
                        (ComponentAttribute_set strength
                           (Component_init ICombatant (actor ev)) (IntV v) w')
                     = Inr (IntV (v + matching_adds (modifiers (things w (actor ev)))
                                        (zope_attribute strength) + 3), w2)))"
proof -
  let ?b = "Component_init ICombatant (actor ev)"
  let ?ns = "type_modifiers (type (things w (entity self)))"
  let ?u = "do_call (Print ''you put on the armor'') w"
  let ?w' = "add_modifiers (actor ev) ?ns ?u"
  have eb: "entity ?b = actor ev"
    by (simp add: Component_init_def)
  have run: "Equipment_handle_equip self ev w = Inr (ev, ?w')"
    by (simp add: Equipment_handle_equip_def)
  have mods: "modifiers (things ?w' (actor ev)) = modifiers (things w (actor ev)) @ ?ns"
    by simp
  have armor3: "matching_adds (type_modifiers armor_type) (zope_attribute strength) = 3"
    by (simp add: armor_type_def strength_def matching_adds_def)
  have read: "\<exists>w2. ComponentAttribute_get strength ?b ?w' = Inr (IntV (s + 3), w2)"
    if "type (things w (entity self)) = armor_type"
      and "ComponentAttribute_get strength ?b w = Inr (IntV s, w1)" for s w1
    using read_after_more_modifiers [OF that(2), of ?u ?ns] that(1) eb armor3 by simp
  have written: "\<exists>w2. ComponentAttribute_get strength ?b
                        (ComponentAttribute_set strength ?b (IntV v) ?w')
                     = Inr (IntV (v + matching_adds (modifiers (things w (actor ev)))
                                        (zope_attribute strength) + 3), w2)"
    if "type (things w (entity self)) = armor_type" for v
    using that armor3 by (simp add: get_after_set eb matching_adds_append)
  show ?thesis
    using run mods read written by (intro exI [of _ ?w']) blast
qed

theorem equip_appends_type_modifiers_witness:
  "type (things equip_world (entity (Component_init IEquipment 7))) = armor_type
   \<and> ComponentAttribute_get strength (Component_init ICombatant (actor (equip_event 0)))
         equip_world
       = Inr (IntV 3, set_data 0 (Attr ICombatant ''strength'') (IntV 3)
                        (do_call (Call_initializer (Attr ICombatant ''strength'') 0) equip_world))
   \<and> (\<exists>w'. Equipment_handle_equip (Component_init IEquipment 7) (equip_event 0) equip_world
               = Inr (equip_event 0, w')
          \<and> modifiers (things w' 0) = [\<lparr>stat = Attr ICombatant ''strength'', add = 3\<rparr>]
          \<and> (\<exists>w2. ComponentAttribute_get strength (Component_init ICombatant 0) w'
                      = Inr (IntV 6, w2)))"
proof -
  let ?self = "Component_init IEquipment 7"
  let ?b = "Component_init ICombatant (actor (equip_event 0))"
  have a: "actor (equip_event 0) = 0"
    by (simp add: equip_event_def)
  have armor: "type (things equip_world (entity ?self)) = armor_type"
    by (simp add: Component_init_def equip_world_def Thing_init_def)
  have before: "ComponentAttribute_get strength ?b equip_world =
                  Inr (IntV 3, set_data 0 (Attr ICombatant ''strength'') (IntV 3)
                         (do_call (Call_initializer (Attr ICombatant ''strength'') 0) equip_world))"
    by (simp add: a get_unset equip_world_def Thing_init_def strength_def Component_init_def)
  have lists: "modifiers (things equip_world (actor (equip_event 0)))
                 @ type_modifiers (type (things equip_world (entity ?self)))
               = [\<lparr>stat = Attr ICombatant ''strength'', add = 3\<rparr>]"
    by (simp add: a Component_init_def equip_world_def Thing_init_def armor_type_def)
  from equip_appends_type_modifiers [of ?self "equip_event 0" equip_world]
  obtain w' where
    run: "Equipment_handle_equip ?self (equip_event 0) equip_world = Inr (equip_event 0, w')"
    and mods: "modifiers (things w' (actor (equip_event 0)))
                 = modifiers (things equip_world (actor (equip_event 0)))
                   @ type_modifiers (type (things equip_world (entity ?self)))"
    and read: "type (things equip_world (entity ?self)) = armor_type \<longrightarrow>
                 (\<forall>s w1. ComponentAttribute_get strength ?b equip_world = Inr (IntV s, w1) \<longrightarrow>
                    (\<exists>w2. ComponentAttribute_get strength ?b w' = Inr (IntV (s + 3), w2)))"
    by blast
  from read armor before obtain w2 where
    "ComponentAttribute_get strength ?b w' = Inr (IntV (3 + 3), w2)"
    by blast
  then have after: "\<exists>w2. ComponentAttribute_get strength (Component_init ICombatant 0) w'
                      = Inr (IntV 6, w2)"
    by (simp add: a)
  from mods lists have "modifiers (things w' 0) = [\<lparr>stat = Attr ICombatant ''strength'', add = 3\<rparr>]"
    by (simp add: a)
  with run after armor before show ?thesis
    by blast
qed

lemma equip_dispatch_example:
  "(case Thing_handle_event flax_classes 7 (equip_event 0) equip_world of
      Inl x \<Rightarrow> False
    | Inr (ev, w) \<Rightarrow>
        ev = equip_event 0
        \<and> modifiers (things w 0) = [\<lparr>stat = Attr ICombatant ''strength'', add = 3\<rparr>]
        \<and> modifiers (things w 7) = []
        \<and> calls w = [Print ''you put on the armor''])"
  by (simp add: Thing_handle_event_def equip_world_def Thing_init_def armor_type_def
        Component_handle_event_def Portable_table Equipment_table equip_event_def
        Equipment_handle_equip_def Component_init_def add_modifiers_def do_call_def)

subsection \<open>Construction of a ThingType\<close>

lemma add_interfaces_ok:
  "distinct (filter (\<lambda>i. i \<noteq> IComponent) is) \<Longrightarrow>
   set (filter (\<lambda>i. i \<noteq> IComponent) is) \<inter> fst ` set m = {} \<Longrightarrow>
   add_interfaces c is m = Inr (m @ map (\<lambda>i. (i, c)) (filter (\<lambda>i. i \<noteq> IComponent) is))"
proof (induction "is" arbitrary: m)
  case Nil
  show ?case by simp
next
  case (Cons i rest)
  show ?case
  proof (cases "i = IComponent")
    case True
    with Cons show ?thesis by simp
  next
    case False
    with Cons.prems have fresh: "map_of m i = None"
      by (auto simp: map_of_eq_None_iff)
    from False Cons.prems have
      "set (filter (\<lambda>i. i \<noteq> IComponent) rest) \<inter> fst ` set (m @ [(i, c)]) = {}"
      by auto
    with Cons.IH [of "m @ [(i, c)]"] Cons.prems False fresh show ?thesis
      by simp
  qed
qed

lemma add_interfaces_fail:
  "\<not> (distinct (filter (\<lambda>i. i \<noteq> IComponent) is) \<and>
      set (filter (\<lambda>i. i \<noteq> IComponent) is) \<inter> fst ` set m = {}) \<Longrightarrow>
   \<exists>f c'. add_interfaces c is m = Inl (TypeError_two_components f c' c)"
proof (induction "is" arbitrary: m)
  case Nil
  then show ?case by simp
next
  case (Cons i rest)
  show ?case
  proof (cases "i = IComponent")
    case True
    with Cons show ?thesis by simp
  next
    case False
    show ?thesis
    proof (cases "map_of m i")
      case (Some c')
      with False show ?thesis by simp
    next
      case None
      then have notin: "i \<notin> fst ` set m"
        by (simp add: map_of_eq_None_iff)
      from Cons.prems False notin have
        "\<not> (distinct (filter (\<lambda>i. i \<noteq> IComponent) rest) \<and>
            set (filter (\<lambda>i. i \<noteq> IComponent) rest) \<inter> fst ` set (m @ [(i, c)]) = {})"
        by auto
      from Cons.IH [OF this] False None show ?thesis by simp
    qed
  qed
qed

lemma add_components_ok:
  "distinct (concat (map (capabilities impl) cs)) \<Longrightarrow>
   set (concat (map (capabilities impl) cs)) \<inter> fst ` set m = {} \<Longrightarrow>
   add_components impl cs m =
     Inr (m @ concat (map (\<lambda>c. map (\<lambda>i. (i, c)) (capabilities impl c)) cs))"
proof (induction cs arbitrary: m)
  case Nil
  show ?case by simp
next
  case (Cons c cs)
  let ?m' = "m @ map (\<lambda>i. (i, c)) (capabilities impl c)"
  from Cons.prems have step: "add_interfaces c (impl c) m = Inr ?m'"
    by (intro add_interfaces_ok [of "impl c" m c, folded capabilities_def]) auto
  from Cons.prems have
    "set (concat (map (capabilities impl) cs)) \<inter> fst ` set ?m' = {}"
    by (auto simp: image_Un image_image)
  with Cons.IH [of ?m'] Cons.prems step show ?case
    by simp
qed

lemma add_components_fail:
  "\<not> (distinct (concat (map (capabilities impl) cs)) \<and>
      set (concat (map (capabilities impl) cs)) \<inter> fst ` set m = {}) \<Longrightarrow>
   \<exists>f c' c. add_components impl cs m = Inl (TypeError_two_components f c' c)"
proof (induction cs arbitrary: m)
  case Nil
  then show ?case by simp
next
  case (Cons c cs)
  let ?m' = "m @ map (\<lambda>i. (i, c)) (capabilities impl c)"
  show ?case
  proof (cases "distinct (capabilities impl c) \<and> set (capabilities impl c) \<inter> fst ` set m = {}")
    case False
    from add_interfaces_fail [of "impl c" m c, folded capabilities_def, OF False]
    show ?thesis by auto
  next
    case True
    then have step: "add_interfaces c (impl c) m = Inr ?m'"
      by (intro add_interfaces_ok [of "impl c" m c, folded capabilities_def]) auto
    from Cons.prems True have
      "\<not> (distinct (concat (map (capabilities impl) cs)) \<and>
          set (concat (map (capabilities impl) cs)) \<inter> fst ` set ?m' = {})"
      by (auto simp: image_Un image_image)
    from Cons.IH [OF this] step show ?thesis by simp
  qed
qed

lemma distinct_concat_share:
  "\<forall>c\<in>set cs. distinct (g c) \<Longrightarrow>
   distinct (concat (map g cs)) \<longleftrightarrow>
     \<not> (\<exists>j k. j < k \<and> k < length cs \<and> set (g (cs ! j)) \<inter> set (g (cs ! k)) \<noteq> {})"
proof (induction cs)
  case Nil
  show ?case by simp
next
  case (Cons c cs)
  have split: "(\<exists>j k. j < k \<and> k < length (c # cs) \<and>
                  set (g ((c # cs) ! j)) \<inter> set (g ((c # cs) ! k)) \<noteq> {})
           \<longleftrightarrow> (\<exists>x\<in>set cs. set (g c) \<inter> set (g x) \<noteq> {})
               \<or> (\<exists>j k. j < k \<and> k < length cs \<and> set (g (cs ! j)) \<inter> set (g (cs ! k)) \<noteq> {})"
    (is "?L \<longleftrightarrow> ?A \<or> ?B")
  proof
    assume ?L
    then obtain j k where jk: "j < k" "k < length (c # cs)"
      "set (g ((c # cs) ! j)) \<inter> set (g ((c # cs) ! k)) \<noteq> {}" by blast
    from jk(1) obtain k' where k: "k = Suc k'" by (cases k) auto
    show "?A \<or> ?B"
    proof (cases j)
      case 0
      with jk k have "cs ! k' \<in> set cs" "set (g c) \<inter> set (g (cs ! k')) \<noteq> {}" by auto
      then show ?thesis by blast
    next
      case (Suc j')
      with jk k have "j' < k'" "k' < length cs" "set (g (cs ! j')) \<inter> set (g (cs ! k')) \<noteq> {}"
        by auto
      then show ?thesis by blast
    qed
  next
    assume "?A \<or> ?B"
    then show ?L
    proof
      assume ?A
      then obtain x where "x \<in> set cs" "set (g c) \<inter> set (g x) \<noteq> {}"
        by blast
      then obtain k' where "k' < length cs" "set (g c) \<inter> set (g (cs ! k')) \<noteq> {}"
        unfolding in_set_conv_nth by blast
      then have "0 < Suc k' \<and> Suc k' < length (c # cs) \<and>
                 set (g ((c # cs) ! 0)) \<inter> set (g ((c # cs) ! Suc k')) \<noteq> {}" by simp
      then show ?L by blast
    next
      assume ?B
      then obtain j k where "j < k" "k < length cs" "set (g (cs ! j)) \<inter> set (g (cs ! k)) \<noteq> {}"
        by blast
      then have "Suc j < Suc k \<and> Suc k < length (c # cs) \<and>
                 set (g ((c # cs) ! Suc j)) \<inter> set (g ((c # cs) ! Suc k)) \<noteq> {}" by simp
      then show ?L by blast
    qed
  qed
  from Cons have "distinct (concat (map g (c # cs))) \<longleftrightarrow> \<not> (?A \<or> ?B)"
    by auto
  with split show ?case by simp
qed

lemma map_fst_pairs:
  "map fst (concat (map (\<lambda>c. map (\<lambda>i. (i, c)) (g c)) cs)) = concat (map g cs)"
  by (induction cs) (simp_all add: comp_def)

lemma ThingType_init_ok:
  assumes "distinct (concat (map (capabilities impl) cs))"
  shows "ThingType_init impl cs l n r ms =
     Inr \<lparr>layer = l, name = n, tmp_rendering = r, type_modifiers = ms,
          components = concat (map (\<lambda>c. map (\<lambda>i. (i, c)) (capabilities impl c)) cs)\<rparr>"
  using add_components_ok [of impl cs "[]"] assms by (simp add: ThingType_init_def)

lemma ThingType_init_fail:
  assumes "\<not> distinct (concat (map (capabilities impl) cs))"
  shows "\<exists>f c' c. ThingType_init impl cs l n r ms = Inl (TypeError_two_components f c' c)"
proof -
  from add_components_fail [of impl cs "[]"] assms
  obtain f c' c where "add_components impl cs [] = Inl (TypeError_two_components f c' c)"
    by auto
  then show ?thesis by (simp add: ThingType_init_def)
qed

text \<open>
  C6. \<open>implementedBy\<close> yields no interface twice for one component. Then the
  construction of a ThingType raises the TypeError of two components for one interface
  if and only if two of the supplied components implement the same capability (the
  marker IComponent aside). Otherwise it succeeds, and \<open>components\<close> has one entry for
  each capability of each supplied component, no capability twice.
\<close>

theorem thingtype_duplicate_capability:
  assumes zope: "\<forall>c\<in>set cs. distinct (implementedBy c)"
  shows "((\<exists>f c' c. ThingType_init implementedBy cs l n r ms
                      = Inl (TypeError_two_components f c' c))
            \<longleftrightarrow> share_capability implementedBy cs)
       \<and> ((\<exists>ty. ThingType_init implementedBy cs l n r ms = Inr ty)
            \<longleftrightarrow> \<not> share_capability implementedBy cs)
       \<and> (\<not> share_capability implementedBy cs \<longrightarrow>
            (\<exists>ty. ThingType_init implementedBy cs l n r ms = Inr ty
               \<and> distinct (map fst (components ty))
               \<and> set (components ty)
                   = {(f, c). c \<in> set cs \<and> f \<in> set (capabilities implementedBy c)}))"
proof -
  let ?flat = "concat (map (capabilities implementedBy) cs)"
  let ?comps = "concat (map (\<lambda>c. map (\<lambda>i. (i, c)) (capabilities implementedBy c)) cs)"
  from zope have "\<forall>c\<in>set cs. distinct (capabilities implementedBy c)"
    by (simp add: capabilities_def)
  from distinct_concat_share [OF this]
  have share: "share_capability implementedBy cs \<longleftrightarrow> \<not> distinct ?flat"
    unfolding share_capability_def by blast
  show ?thesis
  proof (cases "distinct ?flat")
    case True
    have keys: "distinct (map fst ?comps)"
      using True by (simp add: map_fst_pairs)
    have entries: "set ?comps = {(f, c). c \<in> set cs \<and> f \<in> set (capabilities implementedBy c)}"
      by auto
    from ThingType_init_ok [OF True, of l n r ms] keys entries share True
    show ?thesis by simp
  next
    case False
    from ThingType_init_fail [OF False, of l n r ms] share False
    show ?thesis by auto
  qed
qed

theorem thingtype_duplicate_capability_witness:
  "distinct (flax_implementedBy Solid) \<and> distinct (flax_implementedBy Empty)
   \<and> share_capability flax_implementedBy [Solid, Empty]
   \<and> ThingType_init flax_implementedBy [Solid, Empty] architecture ''door'' (0x2B, ''default'') []
       = Inl (TypeError_two_components IPhysics Solid Empty)
   \<and> distinct (flax_implementedBy Combatant) \<and> distinct (flax_implementedBy Container)
   \<and> distinct (flax_implementedBy GenericAI)
   \<and> \<not> share_capability flax_implementedBy [Solid, Combatant, Container, GenericAI]
   \<and> Salamango = Inr salamango_type"
proof -
  have d1: "\<forall>c\<in>set [Solid, Empty]. distinct (flax_implementedBy c)"
    by simp
  have d2: "\<forall>c\<in>set [Solid, Combatant, Container, GenericAI]. distinct (flax_implementedBy c)"
    by simp
  have fails: "ThingType_init flax_implementedBy [Solid, Empty] architecture ''door''
                 (0x2B, ''default'') [] = Inl (TypeError_two_components IPhysics Solid Empty)"
    by (simp add: ThingType_init_def)
  have builds: "ThingType_init flax_implementedBy [Solid, Combatant, Container, GenericAI]
                  creature ''salamango'' (0x3A, ''salamango'') [] = Inr salamango_type"
    using Salamango_built by (simp add: Salamango_def Creature_def)
  from thingtype_duplicate_capability [OF d1, of architecture "''door''" "(0x2B, ''default'')" "[]"]
    fails
  have share: "share_capability flax_implementedBy [Solid, Empty]"
    by blast
  from thingtype_duplicate_capability [OF d2, of creature "''salamango''"
      "(0x3A, ''salamango'')" "[]"] builds
  have noshare: "\<not> share_capability flax_implementedBy [Solid, Combatant, Container, GenericAI]"
    by blast
  from share fails noshare Salamango_built show ?thesis
    by simp
qed

end
